theory Spec2Isabelle
  imports Main "HOL-Library.AList"
begin

section \<open>Exceptions\<close>

text \<open>
  The Python exceptions the install service raises or receives from the standard library.
  Only subclasses of \<open>Exception\<close> are modelled. \<open>ShutilError\<close> is \<open>shutil.Error\<close>,
  \<open>OtherError\<close> any exception class an external collaborator may raise.
\<close>

datatype exn_class =
    FileExistsError | FileNotFoundError | NotADirectoryError | IsADirectoryError
  | SameFileError | ShutilError | ValueError | KeyError | IndexError | AssertionError
  | DuplicateModelException | InvalidModelConfigException | UnknownModelException
  | OtherError string

datatype exn = Exn (exn_kind: exn_class) (exn_message: string)

fun class_name :: "exn_class \<Rightarrow> string" where
  "class_name FileExistsError = ''FileExistsError''"
| "class_name FileNotFoundError = ''FileNotFoundError''"
| "class_name NotADirectoryError = ''NotADirectoryError''"
| "class_name IsADirectoryError = ''IsADirectoryError''"
| "class_name SameFileError = ''SameFileError''"
| "class_name ShutilError = ''Error''"
| "class_name ValueError = ''ValueError''"
| "class_name KeyError = ''KeyError''"
| "class_name IndexError = ''IndexError''"
| "class_name AssertionError = ''AssertionError''"
| "class_name DuplicateModelException = ''DuplicateModelException''"
| "class_name InvalidModelConfigException = ''InvalidModelConfigException''"
| "class_name UnknownModelException = ''UnknownModelException''"
| "class_name (OtherError n) = n"

section \<open>Strings\<close>

fun split_on :: "char \<Rightarrow> string \<Rightarrow> string list" where
  "split_on sep [] = [[]]"
| "split_on sep (c # cs) =
     (if c = sep then [] # split_on sep cs
      else (case split_on sep cs of [] \<Rightarrow> [[c]] | w # ws \<Rightarrow> (c # w) # ws))"

fun join_with :: "string \<Rightarrow> string list \<Rightarrow> string" where
  "join_with sep [] = []"
| "join_with sep [w] = w"
| "join_with sep (w # v # ws) = w @ sep @ join_with sep (v # ws)"

definition digit_char :: "nat \<Rightarrow> char" where
  "digit_char d = ''0123456789'' ! d"

fun digits :: "nat \<Rightarrow> string" where
  "digits n = (if n < 10 then [digit_char n] else digits (n div 10) @ [digit_char (n mod 10)])"

declare digits.simps [simp del]

text \<open>The format specification \<open>{counter:02d}\<close>: decimal, padded with zeros to width two.\<close>

definition fmt_02d :: "nat \<Rightarrow> string" where
  "fmt_02d n = (if n < 10 then CHR ''0'' # digits n else digits n)"

section \<open>Pure paths\<close>

text \<open>
  A \<open>pathlib.PurePosixPath\<close> after parsing: whether it is anchored at the root, and its
  components. \<open>Path_of\<close> is the constructor from a string: it drops empty and \<open>.\<close>
  components and keeps \<open>..\<close>; a leading double slash is read as a single one.
\<close>

record path =
  absolute :: bool
  parts :: "string list"

definition Path_of :: "string \<Rightarrow> path" where
  "Path_of s = \<lparr> absolute = (s \<noteq> [] \<and> hd s = CHR ''/''),
                parts = filter (\<lambda>c. c \<noteq> [] \<and> c \<noteq> ''.'') (split_on CHR ''/'' s) \<rparr>"

definition as_posix :: "path \<Rightarrow> string" where
  "as_posix p =
     (if absolute p then CHR ''/'' # join_with ''/'' (parts p)
      else if parts p = [] then ''.'' else join_with ''/'' (parts p))"

definition joinpath :: "path \<Rightarrow> path \<Rightarrow> path" where
  "joinpath p q = (if absolute q then q else p\<lparr>parts := parts p @ parts q\<rparr>)"

definition parent :: "path \<Rightarrow> path" where
  "parent p = p\<lparr>parts := butlast (parts p)\<rparr>"

definition name :: "path \<Rightarrow> string" where
  "name p = (if parts p = [] then [] else last (parts p))"

text \<open>
  \<open>suffix\<close> and \<open>stem\<close> split the name at its last dot, unless that dot is the first or
  the last character of the name (\<open>i = name.rfind('.')\<close>, \<open>0 < i < len(name) - 1\<close>).
\<close>

definition after_last_dot :: "string \<Rightarrow> string" where
  "after_last_dot n = rev (takeWhile (\<lambda>c. c \<noteq> CHR ''.'') (rev n))"

definition has_suffix :: "string \<Rightarrow> bool" where
  "has_suffix n \<longleftrightarrow>
     CHR ''.'' \<in> set n \<and> after_last_dot n \<noteq> [] \<and> Suc (length (after_last_dot n)) < length n"

definition suffix_of :: "string \<Rightarrow> string" where
  "suffix_of n = (if has_suffix n then CHR ''.'' # after_last_dot n else [])"

definition stem_of :: "string \<Rightarrow> string" where
  "stem_of n = (if has_suffix n then take (length n - Suc (length (after_last_dot n))) n else n)"

definition suffix :: "path \<Rightarrow> string" where
  "suffix p = suffix_of (name p)"

definition stem :: "path \<Rightarrow> string" where
  "stem p = stem_of (name p)"

definition with_name :: "path \<Rightarrow> string \<Rightarrow> exn + path" where
  "with_name p n =
     (if name p = [] then Inl (Exn ValueError (as_posix p @ '' has an empty name''))
      else if n = [] \<or> CHR ''/'' \<in> set n \<or> n = ''.''
        then Inl (Exn ValueError (''Invalid name '' @ n))
      else Inr (p\<lparr>parts := butlast (parts p) @ [n]\<rparr>))"

definition with_stem :: "path \<Rightarrow> string \<Rightarrow> exn + path" where
  "with_stem p s = with_name p (s @ suffix p)"

definition with_suffix :: "path \<Rightarrow> string \<Rightarrow> exn + path" where
  "with_suffix p s =
     (if CHR ''/'' \<in> set s \<or> (s \<noteq> [] \<and> hd s \<noteq> CHR ''.'') \<or> s = ''.''
        then Inl (Exn ValueError (''Invalid suffix '' @ s))
      else if name p = [] then Inl (Exn ValueError (as_posix p @ '' has an empty name''))
      else Inr (p\<lparr>parts := butlast (parts p) @ [stem p @ s]\<rparr>))"

definition is_relative_to :: "path \<Rightarrow> path \<Rightarrow> bool" where
  "is_relative_to p q \<longleftrightarrow>
     absolute p = absolute q \<and> length (parts q) \<le> length (parts p)
       \<and> take (length (parts q)) (parts p) = parts q"

definition relative_to :: "path \<Rightarrow> path \<Rightarrow> exn + path" where
  "relative_to p q =
     (if is_relative_to p q
      then Inr \<lparr> absolute = False, parts = drop (length (parts q)) (parts p) \<rparr>
      else Inl (Exn ValueError (as_posix p @ '' is not in the subpath of '' @ as_posix q)))"

section \<open>The filesystem\<close>

text \<open>
  A directory tree without symbolic links: a regular file with its content, or a
  directory with its entries. The root is always a directory; \<open>cwd\<close> is the working
  directory of the process, against which relative paths are read.
\<close>

datatype node = File string | Dir "(string \<times> node) list"

record filesystem =
  entries :: "(string \<times> node) list"
  cwd :: "string list"

fun walk :: "node \<Rightarrow> string list \<Rightarrow> exn_class + node" where
  "walk n [] = Inr n"
| "walk (File v) (c # cs) = Inl NotADirectoryError"
| "walk (Dir es) (c # cs) =
     (case map_of es c of None \<Rightarrow> Inl FileNotFoundError | Some m \<Rightarrow> walk m cs)"

text \<open>
  The kernel's path resolution: \<open>..\<close> steps from an existing directory to its parent
  (the root is its own parent). The result is the canonical list of components.
\<close>

fun canon :: "node \<Rightarrow> string list \<Rightarrow> string list \<Rightarrow> exn_class + string list" where
  "canon r cur [] = Inr cur"
| "canon r cur (c # cs) =
     (if c = ''..'' then
        (case walk r cur of
           Inl e \<Rightarrow> Inl e
         | Inr (File v) \<Rightarrow> Inl NotADirectoryError
         | Inr (Dir es) \<Rightarrow> canon r (butlast cur) cs)
      else canon r (cur @ [c]) cs)"

definition root :: "filesystem \<Rightarrow> node" where
  "root fs = Dir (entries fs)"

definition locate :: "filesystem \<Rightarrow> path \<Rightarrow> exn_class + string list" where
  "locate fs p = canon (root fs) (if absolute p then [] else cwd fs) (parts p)"

definition stat :: "filesystem \<Rightarrow> path \<Rightarrow> exn_class + node" where
  "stat fs p = (case locate fs p of Inl e \<Rightarrow> Inl e | Inr loc \<Rightarrow> walk (root fs) loc)"

definition exists :: "filesystem \<Rightarrow> path \<Rightarrow> bool" where
  "exists fs p = (case stat fs p of Inl e \<Rightarrow> False | Inr n \<Rightarrow> True)"

definition is_dir :: "filesystem \<Rightarrow> path \<Rightarrow> bool" where
  "is_dir fs p = (case stat fs p of Inr (Dir es) \<Rightarrow> True | _ \<Rightarrow> False)"

definition is_file :: "filesystem \<Rightarrow> path \<Rightarrow> bool" where
  "is_file fs p = (case stat fs p of Inr (File v) \<Rightarrow> True | _ \<Rightarrow> False)"

text \<open>
  \<open>attach\<close> puts a node at a canonical location whose parent is a directory (replacing
  what was there); \<open>detach\<close> removes the node at a location.
\<close>

fun attach :: "node \<Rightarrow> string list \<Rightarrow> node \<Rightarrow> node" where
  "attach n [] new = new"
| "attach (File v) (c # cs) new = File v"
| "attach (Dir es) (c # cs) new =
     (if cs = [] then Dir (AList.update c new es)
      else (case map_of es c of
              None \<Rightarrow> Dir es
            | Some m \<Rightarrow> Dir (AList.update c (attach m cs new) es)))"

fun detach :: "node \<Rightarrow> string list \<Rightarrow> node" where
  "detach n [] = n"
| "detach (File v) (c # cs) = File v"
| "detach (Dir es) (c # cs) =
     (if cs = [] then Dir (AList.delete c es)
      else (case map_of es c of
              None \<Rightarrow> Dir es
            | Some m \<Rightarrow> Dir (AList.update c (detach m cs) es)))"

definition set_root :: "filesystem \<Rightarrow> node \<Rightarrow> filesystem" where
  "set_root fs n = (case n of Dir es \<Rightarrow> fs\<lparr>entries := es\<rparr> | File v \<Rightarrow> fs)"

text \<open>
  Where a path would be created: the canonical location of its parent directory, which
  must exist, and its last component. Creating at a path without a name, or whose last
  component is \<open>..\<close>, meets the directory that is already there.
\<close>

definition target :: "filesystem \<Rightarrow> path \<Rightarrow> exn_class + string list" where
  "target fs p =
     (if parts p = [] \<or> last (parts p) = ''..'' then
        (case stat fs p of Inl e \<Rightarrow> Inl e | Inr n \<Rightarrow> Inl FileExistsError)
      else (case locate fs (parent p) of
              Inl e \<Rightarrow> Inl e
            | Inr loc \<Rightarrow>
                (case walk (root fs) loc of
                   Inl e \<Rightarrow> Inl e
                 | Inr (File v) \<Rightarrow> Inl NotADirectoryError
                 | Inr (Dir es) \<Rightarrow> Inr (loc @ [last (parts p)]))))"

definition os_error :: "exn_class \<Rightarrow> path \<Rightarrow> exn" where
  "os_error k p = Exn k (as_posix p)"

text \<open>\<open>os.mkdir\<close>: the parent must be a directory and the path must not exist.\<close>

definition os_mkdir :: "filesystem \<Rightarrow> path \<Rightarrow> exn_class + filesystem" where
  "os_mkdir fs p =
     (case target fs p of
        Inl e \<Rightarrow> Inl e
      | Inr loc \<Rightarrow>
          (case walk (root fs) loc of
             Inr n \<Rightarrow> Inl FileExistsError
           | Inl e \<Rightarrow> Inr (set_root fs (attach (root fs) loc (Dir [])))))"

text \<open>
  \<open>Path.mkdir(parents=True, exist_ok=True)\<close>: on \<open>FileNotFoundError\<close> the parents are made
  first, then the directory itself; any other \<open>OSError\<close> is ignored when the path is a
  directory already.
\<close>

function mkdir_parents :: "filesystem \<Rightarrow> path \<Rightarrow> exn + filesystem" where
  "mkdir_parents fs p =
     (case os_mkdir fs p of
        Inr fs' \<Rightarrow> Inr fs'
      | Inl e \<Rightarrow>
          (if e = FileNotFoundError then
             (if parts p = [] then Inl (os_error e p)
              else (case mkdir_parents fs (parent p) of
                      Inl e' \<Rightarrow> Inl e'
                    | Inr fs' \<Rightarrow>
                        (case os_mkdir fs' p of
                           Inr fs'' \<Rightarrow> Inr fs''
                         | Inl e' \<Rightarrow>
                             (if e' \<noteq> FileNotFoundError \<and> is_dir fs' p then Inr fs'
                              else Inl (os_error e' p)))))
           else if is_dir fs p then Inr fs
           else Inl (os_error e p)))"
  by pat_completeness auto
termination
  by (relation "measure (\<lambda>(fs, p). length (parts p))") (auto simp: parent_def)

declare mkdir_parents.simps [simp del]

text \<open>
  \<open>shutil.copytree(src, dst)\<close> with \<open>dirs_exist_ok=False\<close>: the source directory is listed,
  then \<open>os.makedirs(dst)\<close> fails when the destination exists, else the tree is copied.
\<close>

definition copytree :: "filesystem \<Rightarrow> path \<Rightarrow> path \<Rightarrow> exn + filesystem" where
  "copytree fs src dst =
     (case stat fs src of
        Inl e \<Rightarrow> Inl (os_error e src)
      | Inr (File v) \<Rightarrow> Inl (os_error NotADirectoryError src)
      | Inr (Dir es) \<Rightarrow>
          (case (if exists fs (parent dst) then Inr fs else mkdir_parents fs (parent dst)) of
             Inl e \<Rightarrow> Inl e
           | Inr fs' \<Rightarrow>
               (case os_mkdir fs' dst of
                  Inl e \<Rightarrow> Inl (os_error e dst)
                | Inr fs'' \<Rightarrow>
                    (case locate fs'' dst of
                       Inl e \<Rightarrow> Inl (os_error e dst)
                     | Inr loc \<Rightarrow> Inr (set_root fs'' (attach (root fs'') loc (Dir es)))))))"

text \<open>
  \<open>shutil.copyfile(src, dst)\<close>: refuses to copy a file onto itself, reads the source, and
  opens the destination for writing, which truncates a file that is already there.
\<close>

definition copyfile :: "filesystem \<Rightarrow> path \<Rightarrow> path \<Rightarrow> exn + filesystem" where
  "copyfile fs src dst =
     (if exists fs src \<and> locate fs src = locate fs dst
        then Inl (Exn SameFileError (as_posix src @ '' and '' @ as_posix dst @ '' are the same file''))
      else (case stat fs src of
              Inl e \<Rightarrow> Inl (os_error e src)
            | Inr (Dir es) \<Rightarrow> Inl (os_error IsADirectoryError src)
            | Inr (File v) \<Rightarrow>
                (case stat fs dst of
                   Inr (Dir es) \<Rightarrow> Inl (os_error IsADirectoryError dst)
                 | Inr (File w) \<Rightarrow>
                     (case locate fs dst of
                        Inl e \<Rightarrow> Inl (os_error e dst)
                      | Inr loc \<Rightarrow> Inr (set_root fs (attach (root fs) loc (File v))))
                 | Inl e \<Rightarrow>
                     (case target fs dst of
                        Inl e' \<Rightarrow> Inl (os_error e' dst)
                      | Inr loc \<Rightarrow> Inr (set_root fs (attach (root fs) loc (File v)))))))"

text \<open>
  \<open>os.rename(src, dst)\<close>: the source must exist and the destination's parent be a
  directory; a directory does not move below itself; an existing destination is replaced
  when it is a file (and the source a file) or an empty directory (and the source a
  directory).
\<close>

definition os_rename :: "filesystem \<Rightarrow> path \<Rightarrow> path \<Rightarrow> exn + filesystem" where
  "os_rename fs src dst =
     (case locate fs src of
        Inl e \<Rightarrow> Inl (os_error e src)
      | Inr sloc \<Rightarrow>
          (case walk (root fs) sloc of
             Inl e \<Rightarrow> Inl (os_error e src)
           | Inr n \<Rightarrow>
               (case (case stat fs dst of Inr m \<Rightarrow> locate fs dst | Inl e \<Rightarrow> target fs dst) of
                  Inl e \<Rightarrow> Inl (os_error e dst)
                | Inr dloc \<Rightarrow>
                    (if sloc = dloc then Inr fs
                     else if take (length sloc) dloc = sloc
                       then Inl (Exn (OtherError ''OSError'') (as_posix dst))
                     else (case (n, walk (root fs) dloc) of
                             (File v, Inr (Dir es)) \<Rightarrow> Inl (os_error IsADirectoryError dst)
                           | (Dir es, Inr (File v)) \<Rightarrow> Inl (os_error NotADirectoryError dst)
                           | (Dir es, Inr (Dir (x # xs))) \<Rightarrow>
                               Inl (Exn (OtherError ''OSError'') (as_posix dst))
                           | _ \<Rightarrow> Inr (set_root fs (attach (detach (root fs) sloc) dloc n)))))))"

text \<open>\<open>os.unlink\<close> removes a regular file.\<close>

definition unlink :: "filesystem \<Rightarrow> path \<Rightarrow> exn + filesystem" where
  "unlink fs p =
     (case stat fs p of
        Inl e \<Rightarrow> Inl (os_error e p)
      | Inr (Dir es) \<Rightarrow> Inl (os_error IsADirectoryError p)
      | Inr (File v) \<Rightarrow>
          (case locate fs p of
             Inl e \<Rightarrow> Inl (os_error e p)
           | Inr loc \<Rightarrow> Inr (set_root fs (detach (root fs) loc))))"

text \<open>\<open>shutil.rmtree(path)\<close> with the default \<open>ignore_errors=False\<close>.\<close>

definition rmtree :: "filesystem \<Rightarrow> path \<Rightarrow> exn + filesystem" where
  "rmtree fs p =
     (case stat fs p of
        Inl e \<Rightarrow> Inl (os_error e p)
      | Inr (File v) \<Rightarrow> Inl (os_error NotADirectoryError p)
      | Inr (Dir es) \<Rightarrow>
          (case locate fs p of
             Inl e \<Rightarrow> Inl (os_error e p)
           | Inr loc \<Rightarrow>
               (if loc = [] then Inr (fs\<lparr>entries := []\<rparr>)
                else Inr (set_root fs (detach (root fs) loc)))))"

text \<open>
  \<open>shutil.move(src, dst)\<close>: a move into an existing directory goes below it and must not
  meet an entry there. The move is a rename; when the rename fails, a directory that
  does not contain the destination is copied and then removed, and a file is copied
  and then unlinked.
\<close>

definition move :: "filesystem \<Rightarrow> path \<Rightarrow> path \<Rightarrow> exn + filesystem" where
  "move fs src dst =
     (let into = is_dir fs dst \<and> \<not> (exists fs src \<and> locate fs src = locate fs dst);
          real_dst = (if into then joinpath dst \<lparr> absolute = False, parts = [name src] \<rparr> else dst)
      in if into \<and> exists fs real_dst
         then Inl (Exn ShutilError (''Destination path '' @ as_posix real_dst @ '' already exists''))
         else (case os_rename fs src real_dst of
                 Inr fs' \<Rightarrow> Inr fs'
               | Inl e \<Rightarrow>
                   (if is_dir fs src then
                      (case (locate fs src, locate fs dst) of
                         (Inr sloc, Inr dloc) \<Rightarrow>
                           (if take (length sloc) dloc = sloc
                            then Inl (Exn ShutilError (''Cannot move a directory '' @ as_posix src
                                        @ '' into itself '' @ as_posix dst))
                            else (case copytree fs src real_dst of
                                    Inl e' \<Rightarrow> Inl e'
                                  | Inr fs' \<Rightarrow> rmtree fs' src))
                       | _ \<Rightarrow>
                           (case copytree fs src real_dst of
                              Inl e' \<Rightarrow> Inl e'
                            | Inr fs' \<Rightarrow> rmtree fs' src))
                    else (case copyfile fs src real_dst of
                            Inl e' \<Rightarrow> Inl e'
                          | Inr fs' \<Rightarrow> unlink fs' src))))"

text \<open>
  \<open>Path.resolve()\<close> without symbolic links: the path is made absolute against the
  working directory and \<open>..\<close> components are collapsed lexically (the parent of the root
  is the root).
\<close>

fun collapse :: "string list \<Rightarrow> string list \<Rightarrow> string list" where
  "collapse acc [] = acc"
| "collapse acc (c # cs) =
     (if c = ''..'' then collapse (butlast acc) cs else collapse (acc @ [c]) cs)"

definition resolve :: "filesystem \<Rightarrow> path \<Rightarrow> path" where
  "resolve fs p =
     \<lparr> absolute = True, parts = collapse [] (if absolute p then parts p else cwd fs @ parts p) \<rparr>"

text \<open>The sum of the sizes of the regular files below a node (\<open>_stat_size\<close>).\<close>

fun tree_size :: "node \<Rightarrow> nat" where
  "tree_size (File v) = length v"
| "tree_size (Dir es) = sum_list (map (\<lambda>e. tree_size (snd e)) es)"

definition stat_size :: "filesystem \<Rightarrow> path \<Rightarrow> nat" where
  "stat_size fs p = (case stat fs p of Inl e \<Rightarrow> 0 | Inr n \<Rightarrow> tree_size n)"

section \<open>Path operations of the service\<close>

text \<open>
  An operation on the filesystem returns what it returned or raised, and the filesystem
  as it left it. \<open>_copy_model\<close>:
\<close>

definition copy_model :: "filesystem \<Rightarrow> path \<Rightarrow> path \<Rightarrow> (exn + path) \<times> filesystem" where
  "copy_model fs old_path new_path =
     (if old_path = new_path then (Inr old_path, fs)
      else (case mkdir_parents fs (parent new_path) of
              Inl e \<Rightarrow> (Inl e, fs)
            | Inr fs1 \<Rightarrow>
                (if is_dir fs1 old_path then
                   (case copytree fs1 old_path new_path of
                      Inl e \<Rightarrow> (Inl e, fs1) | Inr fs2 \<Rightarrow> (Inr new_path, fs2))
                 else
                   (case copyfile fs1 old_path new_path of
                      Inl e \<Rightarrow> (Inl e, fs1) | Inr fs2 \<Rightarrow> (Inr new_path, fs2)))))"

text \<open>
  The loop of \<open>_move_model\<close> on its state \<open>(new_path, counter)\<close>, and the name it tries
  at a counter, \<open>new_path.with_stem(new_path.stem + f"_{counter:02d}")\<close>. The loop may run
  forever on a directory with infinitely many colliding names, so not returning is the
  value \<open>None\<close>.
\<close>

definition jiggered :: "path \<Rightarrow> nat \<Rightarrow> exn + path" where
  "jiggered new_path counter = with_stem new_path (stem new_path @ CHR ''_'' # fmt_02d counter)"

partial_function (option) jigger :: "filesystem \<Rightarrow> path \<Rightarrow> nat \<Rightarrow> (exn + path) option" where
  "jigger fs new_path counter =
     (if exists fs new_path then
        (case jiggered new_path counter of
           Inl e \<Rightarrow> Some (Inl e)
         | Inr p \<Rightarrow>
             (if \<not> exists fs p then jigger fs p (counter + 1)
              else jigger fs new_path (counter + 1)))
      else Some (Inr new_path))"

text \<open>\<open>_move_model\<close>.\<close>

definition move_model ::
  "filesystem \<Rightarrow> path \<Rightarrow> path \<Rightarrow> ((exn + path) \<times> filesystem) option" where
  "move_model fs old_path new_path =
     (if old_path = new_path then Some (Inr old_path, fs)
      else (case mkdir_parents fs (parent new_path) of
              Inl e \<Rightarrow> Some (Inl e, fs)
            | Inr fs1 \<Rightarrow>
                (case jigger fs1 new_path 1 of
                   None \<Rightarrow> None
                 | Some (Inl e) \<Rightarrow> Some (Inl e, fs1)
                 | Some (Inr p) \<Rightarrow>
                     (case move fs1 old_path p of
                        Inl e \<Rightarrow> Some (Inl e, fs1)
                      | Inr fs2 \<Rightarrow> Some (Inr p, fs2)))))"

section \<open>The service and its collaborators\<close>

text \<open>
  The configuration mapping a caller passes (\<open>Dict[str, Any]\<close>) is an association list in
  insertion order; its values are strings. A value is truthy when it is present and
  not empty.
\<close>

type_synonym config = "(string \<times> string) list"

definition truthy :: "string option \<Rightarrow> bool" where
  "truthy v = (case v of None \<Rightarrow> False | Some s \<Rightarrow> s \<noteq> [])"

definition str_of :: "string option \<Rightarrow> string" where
  "str_of v = (case v of None \<Rightarrow> [] | Some s \<Rightarrow> s)"

text \<open>
  Modelled from the spec: the typed model configuration that the probe returns and the
  records store persists (\<open>AnyModelConfig\<close> is declared outside this file). It carries
  \<open>base\<close>, \<open>type\<close>, \<open>key\<close>, \<open>path\<close> and, for checkpoint-style models only
  (\<open>CheckpointConfigBase\<close>), \<open>config_path\<close>.
\<close>

record model_config =
  m_key :: string
  m_base :: string
  m_type :: string
  m_path :: string
  m_config_path :: "string option"

record app_config =
  models_path :: path
  legacy_conf_path :: path
  root_path :: path
  legacy_models_yaml_path :: "path option"
  remote_api_tokens :: "(string \<times> string) list option"
  scan_models_on_startup :: bool

text \<open>
  Modelled from the spec: the records store (\<open>ModelRecordServiceBase\<close> is declared
  outside this file). It persists configuration entries under their opaque key:
  \<open>add_model\<close> refuses a key that is taken, \<open>get_model\<close> a key that is unknown.
\<close>

definition add_model :: "model_config \<Rightarrow> model_config list \<Rightarrow> exn + model_config list" where
  "add_model info store =
     (if m_key info \<in> set (map m_key store)
      then Inl (Exn DuplicateModelException (''A model with key '' @ m_key info @ '' is already installed''))
      else Inr (store @ [info]))"

definition get_model :: "string \<Rightarrow> model_config list \<Rightarrow> exn + model_config" where
  "get_model k store =
     (case find (\<lambda>i. m_key i = k) store of
        None \<Rightarrow> Inl (Exn UnknownModelException (''model not found, key='' @ k))
      | Some i \<Rightarrow> Inr i)"

subsection \<open>Sources, jobs and events\<close>

text \<open>
  Modelled from the spec: the three source variants, the job statuses with their derived
  predicates, and the download sub-job with the fields the service reads
  (\<open>model_install_base\<close> and the download service are declared outside this file).
\<close>

datatype model_source =
    LocalModelSource path "bool option"
  | HFModelSource string "string option" "path option" "string option"
  | URLModelSource string "string option"

text \<open>
  Modelled from the spec: the recorded \<open>source_type\<close> is one of path, repository id and URL
  (\<open>ModelSourceType\<close>), chosen by the variant of the source (\<open>MODEL_SOURCE_TO_TYPE_MAP\<close>).
\<close>

datatype model_source_type = SourcePath | SourceHFRepoID | SourceUrl

fun source_type_value :: "model_source_type \<Rightarrow> string" where
  "source_type_value SourcePath = ''path''"
| "source_type_value SourceHFRepoID = ''hf_repo_id''"
| "source_type_value SourceUrl = ''url''"

fun MODEL_SOURCE_TO_TYPE_MAP :: "model_source \<Rightarrow> model_source_type" where
  "MODEL_SOURCE_TO_TYPE_MAP (LocalModelSource p i) = SourcePath"
| "MODEL_SOURCE_TO_TYPE_MAP (HFModelSource r v f t) = SourceHFRepoID"
| "MODEL_SOURCE_TO_TYPE_MAP (URLModelSource u t) = SourceUrl"

text \<open>
  Modelled from the spec: the stringified source is the path, the repository id with its
  variant and subfolder in the grammar of source strings, or the URL.
\<close>

fun source_str :: "model_source \<Rightarrow> string" where
  "source_str (LocalModelSource p i) = as_posix p"
| "source_str (HFModelSource r v f t) =
     r @ (if truthy v then '':'' @ str_of v else [])
       @ (case f of None \<Rightarrow> []
          | Some sub \<Rightarrow> (if truthy v then '':'' else ''::'') @ as_posix sub)"
| "source_str (URLModelSource u t) = u"

datatype install_status =
  WAITING | DOWNLOADING | DOWNLOADS_DONE | RUNNING | COMPLETED | ERROR | CANCELLED

datatype download_status = DL_WAITING | DL_RUNNING | DL_COMPLETED | DL_CANCELLED | DL_ERROR

record download_job =
  dl_source :: string
  dl_dest :: path
  dl_access_token :: "string option"
  dl_status :: download_status
  dl_bytes :: nat
  dl_total_bytes :: nat
  dl_content_type :: "string option"
  dl_download_path :: "path option"

definition dl_complete :: "download_job \<Rightarrow> bool" where
  "dl_complete d \<longleftrightarrow> dl_status d = DL_COMPLETED"

definition dl_in_terminal_state :: "download_job \<Rightarrow> bool" where
  "dl_in_terminal_state d \<longleftrightarrow> dl_status d \<in> {DL_COMPLETED, DL_CANCELLED, DL_ERROR}"

record remote_file =
  rf_url :: string
  rf_path :: path
  rf_size :: nat

text \<open>
  Repository metadata: HuggingFace metadata carries the raw API response and a file list
  (\<open>ModelMetadataWithFiles\<close>); other metadata carries no files.
\<close>

datatype repo_metadata = HuggingFaceMetadata string "remote_file list" | PlainMetadata

record install_job =
  job_id :: nat
  source :: model_source
  config_in :: config
  config_out :: "model_config option"
  source_metadata :: "repo_metadata option"
  local_path :: path
  install_tmpdir :: "path option"
  inplace :: bool
  download_parts :: "nat list"
  bytes :: nat
  total_bytes :: nat
  status :: install_status
  job_error :: "string option"
  error_type :: "string option"

definition in_terminal_state :: "install_job \<Rightarrow> bool" where
  "in_terminal_state x \<longleftrightarrow> status x \<in> {COMPLETED, ERROR, CANCELLED}"

definition cancelled :: "install_job \<Rightarrow> bool" where
  "cancelled x \<longleftrightarrow> status x = CANCELLED"

definition errored :: "install_job \<Rightarrow> bool" where
  "errored x \<longleftrightarrow> status x = ERROR"

definition waiting :: "install_job \<Rightarrow> bool" where
  "waiting x \<longleftrightarrow> status x = WAITING"

definition downloading :: "install_job \<Rightarrow> bool" where
  "downloading x \<longleftrightarrow> status x = DOWNLOADING"

definition downloads_done :: "install_job \<Rightarrow> bool" where
  "downloads_done x \<longleftrightarrow> status x = DOWNLOADS_DONE"

text \<open>
  Modelled from the spec: \<open>job.cancel()\<close> marks the job cancelled, and \<open>job.set_error(e)\<close>
  puts it into \<open>ERROR\<close> and records the message and the class name of the exception
  (both are methods of \<open>ModelInstallJob\<close>, declared outside this file).
\<close>

definition cancel :: "install_job \<Rightarrow> install_job" where
  "cancel x = x\<lparr>status := CANCELLED\<rparr>"

definition set_error :: "exn \<Rightarrow> install_job \<Rightarrow> install_job" where
  "set_error e x =
     x\<lparr>status := ERROR, job_error := Some (exn_message e),
       error_type := Some (class_name (exn_kind e))\<rparr>"

text \<open>The events on the bus. A download part is reported as (url, local path, bytes, total bytes).\<close>

datatype event =
    Install_running string
  | Install_downloading string string "(string \<times> string \<times> nat \<times> nat) list" nat nat nat
  | Install_downloads_done string
  | Install_completed string string nat
  | Install_error string string string nat
  | Install_cancelled string nat

subsection \<open>The state of the service\<close>

text \<open>
  Jobs and download sub-jobs are objects that the job table, the install queue, the
  download cache and the download queue share, so they live in two stores addressed by
  reference: an install job by the id that \<open>_next_id\<close> gave it, a download part by a
  counter of its own. \<open>lock_held\<close> is the state of the non-reentrant \<open>threading.Lock\<close>;
  \<open>emitted\<close>, \<open>submitted\<close> and \<open>cancel_requests\<close> log the calls to the event bus and to the
  download queue; \<open>unfinished_tasks\<close> is the counter of the install queue.
\<close>

record service =
  app_config :: app_config
  disk :: filesystem
  record_store :: "model_config list"
  event_bus :: bool
  emitted :: "event list"
  jobs :: "nat \<Rightarrow> install_job"
  downloads :: "nat \<Rightarrow> download_job"
  next_download :: nat
  install_jobs :: "nat list"
  install_queue :: "nat list"
  unfinished_tasks :: nat
  lock_held :: bool
  stop_event :: bool
  downloads_changed_event :: bool
  install_completed_event :: bool
  download_cache :: "string \<rightharpoonup> nat"
  next_job_id :: nat
  submitted :: "nat list"
  cancel_requests :: "nat list"

text \<open>
  What an external collaborator or library decides: the probe, the effect of the download
  queue's \<open>cancel_job\<close> on a part, the values of \<open>ModelRepoVariant\<close>, \<open>re.search\<close> for a
  configured URL pattern, the cached HuggingFace token, the metadata fetchers and
  \<open>download_urls\<close>, whether the device prefers half precision, the random part of a
  scratch directory's name, and \<open>yaml.safe_load\<close>.
\<close>

record externals =
  probe :: "filesystem \<Rightarrow> path \<Rightarrow> config \<Rightarrow> exn + model_config"
  dq_cancel_job :: "download_job \<Rightarrow> download_job"
  variants :: "string list"
  re_search :: "string \<Rightarrow> string \<Rightarrow> bool"
  hf_get_token :: "string option"
  hf_from_id :: "string \<Rightarrow> string option \<Rightarrow> exn + repo_metadata"
  hf_from_url :: "string \<Rightarrow> exn + repo_metadata"
  download_urls :: "repo_metadata \<Rightarrow> string option \<Rightarrow> path option \<Rightarrow> exn + remote_file list"
  fp16_preferred :: bool
  mkdtemp_random :: "filesystem \<Rightarrow> string"
  safe_load :: "string \<Rightarrow> exn + (string \<times> (string \<times> string) list) list"

text \<open>
  A method of the service returns, raises, or blocks forever on the lock its own thread
  holds; in each case the state is what the method left behind.
\<close>

datatype 'a result = Returns 'a | Raises exn | Blocks

definition update_job :: "nat \<Rightarrow> (install_job \<Rightarrow> install_job) \<Rightarrow> service \<Rightarrow> service" where
  "update_job j f st = st\<lparr>jobs := (jobs st)(j := f (jobs st j))\<rparr>"

definition emit :: "event \<Rightarrow> service \<Rightarrow> service" where
  "emit ev st = (if event_bus st then st\<lparr>emitted := emitted st @ [ev]\<rparr> else st)"

subsection \<open>The register pipeline\<close>

text \<open>\<open>_register\<close>.\<close>

definition register ::
  "externals \<Rightarrow> path \<Rightarrow> config \<Rightarrow> model_config option \<Rightarrow> service \<Rightarrow> string result \<times> service" where
  "register ext model_path config info_opt st =
     (case (case info_opt of Some i \<Rightarrow> Inr i | None \<Rightarrow> probe ext (disk st) model_path config) of
        Inl e \<Rightarrow> (Raises e, st)
      | Inr info \<Rightarrow>
          (let resolved = resolve (disk st) model_path;
               root = models_path (app_config st);
               conf = legacy_conf_path (app_config st)
           in case (if is_relative_to resolved root then relative_to resolved root
                    else Inr resolved) of
                Inl e \<Rightarrow> (Raises e, st)
              | Inr stored \<Rightarrow>
                  (case (case m_config_path info of
                           None \<Rightarrow> Inr None
                         | Some cp \<Rightarrow>
                             (let legacy = joinpath conf (Path_of cp)
                              in case (if is_relative_to legacy conf then relative_to legacy conf
                                       else Inr legacy) of
                                   Inl e \<Rightarrow> Inl e
                                 | Inr q \<Rightarrow> Inr (Some (as_posix q)))) of
                     Inl e \<Rightarrow> (Raises e, st)
                   | Inr cp' \<Rightarrow>
                       (let info' = info\<lparr>m_path := as_posix stored, m_config_path := cp'\<rparr>
                        in case add_model info' (record_store st) of
                             Inl e \<Rightarrow> (Raises e, st)
                           | Inr store' \<Rightarrow>
                               (Returns (m_key info'), st\<lparr>record_store := store'\<rparr>)))))"

text \<open>
  \<open>register_path\<close> writes \<open>source\<close> (unless set) and \<open>source_type\<close> into the mapping it was
  given: \<open>register_path_config\<close> is the mapping afterwards.
\<close>

definition register_path_config :: "filesystem \<Rightarrow> path \<Rightarrow> config \<Rightarrow> config" where
  "register_path_config fs model_path config =
     AList.update ''source_type'' (source_type_value SourcePath)
       (if truthy (map_of config ''source'') then config
        else AList.update ''source'' (as_posix (resolve fs model_path)) config)"

definition register_path ::
  "externals \<Rightarrow> path \<Rightarrow> config \<Rightarrow> service \<Rightarrow> string result \<times> service" where
  "register_path ext model_path config st =
     register ext model_path (register_path_config (disk st) model_path config) None st"

text \<open>
  \<open>install_path\<close>. The preferred name is \<open>config["name"]\<close> with the suffix of the model
  path, when that entry is truthy; the destination is
  \<open>models_path / base / type / (preferred_name or model_path.name)\<close>.
\<close>

definition preferred_name :: "config \<Rightarrow> path \<Rightarrow> exn + path option" where
  "preferred_name config model_path =
     (if truthy (map_of config ''name'')
      then (case with_suffix (Path_of (str_of (map_of config ''name''))) (suffix model_path) of
              Inl e \<Rightarrow> Inl e | Inr q \<Rightarrow> Inr (Some q))
      else Inr None)"

definition dest_path :: "app_config \<Rightarrow> model_config \<Rightarrow> path option \<Rightarrow> path \<Rightarrow> path" where
  "dest_path app info preferred model_path =
     joinpath (joinpath (joinpath (models_path app) (Path_of (m_base info))) (Path_of (m_type info)))
              (case preferred of Some q \<Rightarrow> q | None \<Rightarrow> Path_of (name model_path))"

definition install_path ::
  "externals \<Rightarrow> path \<Rightarrow> config \<Rightarrow> service \<Rightarrow> string result \<times> service" where
  "install_path ext model_path config st =
     (case probe ext (disk st) model_path config of
        Inl e \<Rightarrow> (Raises e, st)
      | Inr info \<Rightarrow>
          (case preferred_name config model_path of
             Inl e \<Rightarrow> (Raises e, st)
           | Inr preferred \<Rightarrow>
               (let dest = dest_path (app_config st) info preferred model_path
                in case copy_model (disk st) model_path dest of
                     (Inl e, fs') \<Rightarrow>
                       (if exn_kind e = FileExistsError
                        then (Raises (Exn DuplicateModelException
                                (''A model named '' @ name model_path
                                   @ '' is already installed at '' @ as_posix dest)),
                              st\<lparr>disk := fs'\<rparr>)
                        else (Raises e, st\<lparr>disk := fs'\<rparr>))
                   | (Inr new_path, fs') \<Rightarrow>
                       register ext new_path config (Some info) (st\<lparr>disk := fs'\<rparr>))))"

subsection \<open>Regular expressions\<close>

text \<open>
  The fragment of Python's \<open>re\<close> that the patterns of the service use, with its
  backtracking order: \<open>matches\<close> lists every way a pattern can match a prefix of the input
  (the groups captured and the input left), the preferred way first. Repetition and
  the optional are greedy, an alternation prefers its left branch, \<open>$\<close> matches at the
  end of the input or before a final newline, and \<open>.\<close> matches any character but a
  newline. \<open>re.match\<close> takes the first way.
\<close>

datatype regex =
    Chr char | Str string | NoneOf string | Dot | Plus_NoneOf string
  | Seq regex regex | Alt regex regex | Opt regex | Group nat regex | Eol

type_synonym groups = "(nat \<times> string) list"

fun matches :: "regex \<Rightarrow> groups \<Rightarrow> string \<Rightarrow> (groups \<times> string) list" where
  "matches (Chr c) g s = (case s of [] \<Rightarrow> [] | x # xs \<Rightarrow> if x = c then [(g, xs)] else [])"
| "matches (Str w) g s = (if take (length w) s = w then [(g, drop (length w) s)] else [])"
| "matches (NoneOf cs) g s =
     (case s of [] \<Rightarrow> [] | x # xs \<Rightarrow> if x \<notin> set cs then [(g, xs)] else [])"
| "matches Dot g s = (case s of [] \<Rightarrow> [] | x # xs \<Rightarrow> if x \<noteq> CHR 0x0A then [(g, xs)] else [])"
| "matches (Plus_NoneOf cs) g s =
     map (\<lambda>k. (g, drop k s)) (rev [1 ..< Suc (length (takeWhile (\<lambda>x. x \<notin> set cs) s))])"
| "matches (Seq a b) g s = concat (map (\<lambda>(g', r). matches b g' r) (matches a g s))"
| "matches (Alt a b) g s = matches a g s @ matches b g s"
| "matches (Opt a) g s = matches a g s @ [(g, s)]"
| "matches (Group i a) g s =
     map (\<lambda>(g', r). (AList.update i (take (length s - length r) s) g', r)) (matches a g s)"
| "matches Eol g s = (if s = [] \<or> s = [CHR 0x0A] then [(g, s)] else [])"

definition re_match :: "regex \<Rightarrow> string \<Rightarrow> groups option" where
  "re_match pat s = (case matches pat [] s of [] \<Rightarrow> None | (g, r) # rest \<Rightarrow> Some g)"




text \<open>\<open>^https?://huggingface.co/[^/]+/[^/]+$\<close>\<close>

definition hf_url_re :: regex where
  "hf_url_re =
     Seq (Str ''http'') (Seq (Opt (Chr CHR ''s'')) (Seq (Str ''://huggingface'')
    (Seq Dot (Seq (Str ''co/'') (Seq (Plus_NoneOf ''/'') (Seq (Chr CHR ''/'')
    (Seq (Plus_NoneOf ''/'') Eol)))))))"

text \<open>\<open>str.lower\<close> on ASCII letters.\<close>

definition lower :: "string \<Rightarrow> string" where
  "lower s = map (\<lambda>c. if 65 \<le> (of_char c :: nat) \<and> (of_char c :: nat) \<le> 90
                        then char_of (of_char c + 32 :: nat) else c) s"

text \<open>\<open>needle in haystack\<close> for strings.\<close>

definition contains :: "string \<Rightarrow> string \<Rightarrow> bool" where
  "contains needle hay =
     list_ex (\<lambda>k. take (length needle) (drop k hay) = needle) [0 ..< Suc (length hay)]"

subsection \<open>Events\<close>

definition signal_job_running :: "nat \<Rightarrow> service \<Rightarrow> service" where
  "signal_job_running j st =
     (let st1 = update_job j (\<lambda>x. x\<lparr>status := RUNNING\<rparr>) st
      in emit (Install_running (source_str (source (jobs st1 j)))) st1)"

definition signal_job_downloading :: "nat \<Rightarrow> service \<Rightarrow> service" where
  "signal_job_downloading j st =
     emit (Install_downloading (source_str (source (jobs st j)))
             (as_posix (local_path (jobs st j)))
             (map (\<lambda>d. (dl_source (downloads st d),
                         (case dl_download_path (downloads st d) of
                            None \<Rightarrow> ''None'' | Some q \<Rightarrow> as_posix q),
                         dl_bytes (downloads st d), dl_total_bytes (downloads st d)))
                  (download_parts (jobs st j)))
             (bytes (jobs st j)) (total_bytes (jobs st j)) (job_id (jobs st j))) st"

definition signal_job_downloads_done :: "nat \<Rightarrow> service \<Rightarrow> service" where
  "signal_job_downloads_done j st =
     (let st1 = update_job j (\<lambda>x. x\<lparr>status := DOWNLOADS_DONE\<rparr>) st
      in emit (Install_downloads_done (source_str (source (jobs st1 j)))) st1)"

definition signal_job_completed :: "nat \<Rightarrow> service \<Rightarrow> unit result \<times> service" where
  "signal_job_completed j st =
     (let st1 = update_job j (\<lambda>x. x\<lparr>status := COMPLETED\<rparr>) st
      in case config_out (jobs st1 j) of
           None \<Rightarrow> (Raises (Exn AssertionError []), st1)
         | Some c \<Rightarrow>
             (Returns (), emit (Install_completed (source_str (source (jobs st1 j))) (m_key c)
                                  (job_id (jobs st1 j))) st1))"

definition signal_job_errored :: "nat \<Rightarrow> service \<Rightarrow> unit result \<times> service" where
  "signal_job_errored j st =
     (if event_bus st then
        (case error_type (jobs st j) of
           None \<Rightarrow> (Raises (Exn AssertionError []), st)
         | Some t \<Rightarrow>
             (case job_error (jobs st j) of
                None \<Rightarrow> (Raises (Exn AssertionError []), st)
              | Some e \<Rightarrow>
                  (Returns (), emit (Install_error (source_str (source (jobs st j))) t e
                                       (job_id (jobs st j))) st)))
      else (Returns (), st))"

definition signal_job_cancelled :: "nat \<Rightarrow> service \<Rightarrow> service" where
  "signal_job_cancelled j st =
     emit (Install_cancelled (source_str (source (jobs st j))) (job_id (jobs st j))) st"

subsection \<open>The install queue and cancellation\<close>

text \<open>
  \<open>_put_in_queue\<close>, \<open>cancel_job\<close> and \<open>_cancel_download_parts\<close> call each other. \<open>cancel_job\<close>
  takes the lock, which is not reentrant: called by a thread that holds it, it marks
  the job cancelled and then blocks. \<open>request_cancel\<close> is the loop that submits a cancel
  for every part to the download queue.
\<close>

definition request_cancel :: "externals \<Rightarrow> nat \<Rightarrow> service \<Rightarrow> service" where
  "request_cancel ext j st =
     st\<lparr>downloads := (\<lambda>d. if d \<in> set (download_parts (jobs st j))
                             then dq_cancel_job ext (downloads st d) else downloads st d),
        cancel_requests := cancel_requests st @ download_parts (jobs st j)\<rparr>"

function put_in_queue :: "externals \<Rightarrow> nat \<Rightarrow> service \<Rightarrow> unit result \<times> service"
  and cancel_job :: "externals \<Rightarrow> nat \<Rightarrow> service \<Rightarrow> unit result \<times> service"
  and cancel_download_parts :: "externals \<Rightarrow> nat \<Rightarrow> service \<Rightarrow> unit result \<times> service"
where
  "put_in_queue ext j st =
     (if stop_event st then cancel_job ext j st
      else (Returns (), st\<lparr>install_queue := install_queue st @ [j],
                            unfinished_tasks := Suc (unfinished_tasks st)\<rparr>))"
| "cancel_job ext j st =
     (if lock_held st then (Blocks, update_job j cancel st)
      else (case cancel_download_parts ext j ((update_job j cancel st)\<lparr>lock_held := True\<rparr>) of
              (Blocks, st') \<Rightarrow> (Blocks, st')
            | (r, st') \<Rightarrow> (r, st'\<lparr>lock_held := False\<rparr>)))"
| "cancel_download_parts ext j st =
     (if \<forall>d \<in> set (download_parts (jobs (request_cancel ext j st) j)).
            dl_in_terminal_state (downloads (request_cancel ext j st) d)
      then put_in_queue ext j (request_cancel ext j st)
      else (Returns (), request_cancel ext j st))"
  by pat_completeness auto
termination
  by (relation "measure (\<lambda>x. case x of
           Inl (ext, j, st) \<Rightarrow> (if lock_held st then 1 else 4)
         | Inr (Inl (ext, j, st)) \<Rightarrow> (if lock_held st then 0 else 3)
         | Inr (Inr (ext, j, st)) \<Rightarrow> (if lock_held st then 2 else 5))")
     (auto simp: update_job_def request_cancel_def)

declare put_in_queue.simps [simp del] cancel_job.simps [simp del]
  cancel_download_parts.simps [simp del]

text \<open>A block of code under \<open>with self._lock\<close>.\<close>

definition locked :: "(service \<Rightarrow> 'a result \<times> service) \<Rightarrow> service \<Rightarrow> 'a result \<times> service" where
  "locked body st =
     (if lock_held st then (Blocks, st)
      else (case body (st\<lparr>lock_held := True\<rparr>) of
              (Blocks, st') \<Rightarrow> (Blocks, st')
            | (r, st') \<Rightarrow> (r, st'\<lparr>lock_held := False\<rparr>)))"

subsection \<open>Importing\<close>

text \<open>\<open>_next_id\<close>, and a job as its constructor leaves it.\<close>

definition next_id :: "service \<Rightarrow> nat result \<times> service" where
  "next_id st =
     locked (\<lambda>s. (Returns (next_job_id s), s\<lparr>next_job_id := next_job_id s + 1\<rparr>)) st"

definition new_job :: "nat \<Rightarrow> model_source \<Rightarrow> config \<Rightarrow> path \<Rightarrow> install_job" where
  "new_job i src cfg lp =
     \<lparr> job_id = i, source = src, config_in = cfg, config_out = None, source_metadata = None,
       local_path = lp, install_tmpdir = None, inplace = False, download_parts = [],
       bytes = 0, total_bytes = 0, status = WAITING, job_error = None, error_type = None \<rparr>"

definition config_or_empty :: "config option \<Rightarrow> config" where
  "config_or_empty c = (case c of None \<Rightarrow> [] | Some m \<Rightarrow> m)"

text \<open>\<open>_import_local_model\<close>.\<close>

definition import_local_model ::
  "path \<Rightarrow> bool option \<Rightarrow> config option \<Rightarrow> service \<Rightarrow> nat result \<times> service" where
  "import_local_model p ip config st =
     (case next_id st of
        (Returns i, st1) \<Rightarrow>
          (Returns i,
           st1\<lparr>jobs := (jobs st1)(i := (new_job i (LocalModelSource p ip) (config_or_empty config) p)
                                          \<lparr>inplace := (ip = Some True)\<rparr>)\<rparr>)
      | (Raises e, st1) \<Rightarrow> (Raises e, st1)
      | (Blocks, st1) \<Rightarrow> (Blocks, st1))"

text \<open>
  The loop of \<open>_import_remote_model\<close> over the remote files: each file adds its size, gets
  its directory below the scratch directory, and is submitted as a download part that
  the download cache maps back to the job.
\<close>

fun submit_parts ::
  "path \<Rightarrow> path \<Rightarrow> path \<Rightarrow> string option \<Rightarrow> nat \<Rightarrow> remote_file list \<Rightarrow> service
     \<Rightarrow> unit result \<times> service" where
  "submit_parts tmpdir rt subfolder token j [] st = (Returns (), st)"
| "submit_parts tmpdir rt subfolder token j (f # files) st =
     (case relative_to (rf_path f) subfolder of
        Inl e \<Rightarrow> (Raises e, st)
      | Inr rel \<Rightarrow>
          (let st1 = update_job j (\<lambda>x. x\<lparr>total_bytes := total_bytes x + rf_size f\<rparr>) st;
               dest = joinpath tmpdir (parent (joinpath rt rel))
           in case mkdir_parents (disk st1) dest of
                Inl e \<Rightarrow> (Raises e, st1)
              | Inr fs' \<Rightarrow>
                  (let d = next_download st1;
                       st2 = st1\<lparr>disk := fs',
                                 downloads := (downloads st1)
                                    (d := \<lparr> dl_source = rf_url f, dl_dest = dest,
                                            dl_access_token = token, dl_status = DL_WAITING,
                                            dl_bytes = 0, dl_total_bytes = 0,
                                            dl_content_type = None, dl_download_path = None \<rparr>),
                                 next_download := Suc d,
                                 download_cache := (download_cache st1)(rf_url f \<mapsto> j)\<rparr>;
                       st3 = update_job j (\<lambda>x. x\<lparr>download_parts := download_parts x @ [d]\<rparr>) st2
                   in submit_parts tmpdir rt subfolder token j files
                        (st3\<lparr>submitted := submitted st3 @ [d]\<rparr>))))"

definition TMPDIR_PREFIX :: string where
  "TMPDIR_PREFIX = ''tmpinstall_''"

definition source_token :: "model_source \<Rightarrow> string option" where
  "source_token src =
     (case src of LocalModelSource p i \<Rightarrow> None | HFModelSource r v f t \<Rightarrow> t
      | URLModelSource u t \<Rightarrow> t)"

text \<open>
  \<open>_import_remote_model\<close>. \<open>mkdtemp\<close> makes the scratch directory under the models root; the
  random part of its name is the collaborator's choice and is taken to be unused.
\<close>

definition import_remote_model ::
  "externals \<Rightarrow> model_source \<Rightarrow> remote_file list \<Rightarrow> repo_metadata option \<Rightarrow> config option
     \<Rightarrow> service \<Rightarrow> nat result \<times> service" where
  "import_remote_model ext src remote_files metadata config st =
     (if remote_files = []
      then (Raises (Exn ValueError (source_str src @ '': No downloadable files found'')), st)
      else
        (let made = joinpath (models_path (app_config st))
                      \<lparr> absolute = False, parts = [TMPDIR_PREFIX @ mkdtemp_random ext (disk st)] \<rparr>
         in case os_mkdir (disk st) made of
              Inl e \<Rightarrow> (Raises (os_error e made), st)
            | Inr fs' \<Rightarrow>
                (let tmpdir = resolve fs' made
                 in case next_id (st\<lparr>disk := fs'\<rparr>) of
                      (Raises e, st1) \<Rightarrow> (Raises e, st1)
                    | (Blocks, st1) \<Rightarrow> (Blocks, st1)
                    | (Returns i, st1) \<Rightarrow>
                        (let st2 = st1\<lparr>jobs := (jobs st1)
                                     (i := (new_job i src (config_or_empty config) tmpdir)
                                              \<lparr>source_metadata := metadata\<rparr>)\<rparr>
                         in case (case src of
                                    HFModelSource r v (Some sub) t \<Rightarrow>
                                      (if absolute (rf_path (hd remote_files))
                                       then Inr (\<lparr> absolute = True, parts = [] \<rparr>, sub)
                                       else (case parts (rf_path (hd remote_files)) of
                                               [] \<Rightarrow> Inl (Exn IndexError ''tuple index out of range'')
                                             | c # cs \<Rightarrow>
                                                 Inr (\<lparr> absolute = False, parts = [c] \<rparr>,
                                                      joinpath \<lparr> absolute = False, parts = [c] \<rparr> sub)))
                                  | _ \<Rightarrow> Inr (Path_of ''.'', Path_of ''.'')) of
                              Inl e \<Rightarrow> (Raises e, st2)
                            | Inr (rt, subfolder) \<Rightarrow>
                                (case submit_parts tmpdir rt subfolder (source_token src) i remote_files
                                        (update_job i (\<lambda>x. x\<lparr>install_tmpdir := Some tmpdir\<rparr>) st2) of
                                   (Returns u, st3) \<Rightarrow> (Returns i, st3)
                                 | (Raises e, st3) \<Rightarrow> (Raises e, st3)
                                 | (Blocks, st3) \<Rightarrow> (Blocks, st3))))))"

text \<open>\<open>_guess_variant\<close> and \<open>_import_from_hf\<close>; \<open>fp16\<close> is the value of \<open>ModelRepoVariant.FP16\<close>.\<close>

definition guess_variant :: "externals \<Rightarrow> string option" where
  "guess_variant ext = (if fp16_preferred ext then Some ''fp16'' else None)"

definition import_from_hf ::
  "externals \<Rightarrow> string \<Rightarrow> string option \<Rightarrow> path option \<Rightarrow> string option \<Rightarrow> config option
     \<Rightarrow> service \<Rightarrow> nat result \<times> service" where
  "import_from_hf ext repo_id variant subfolder token config st =
     (let token' = (if truthy token then token else hf_get_token ext)
      in case hf_from_id ext repo_id variant of
           Inl e \<Rightarrow> (Raises e, st)
         | Inr PlainMetadata \<Rightarrow> (Raises (Exn AssertionError []), st)
         | Inr (HuggingFaceMetadata api files) \<Rightarrow>
             (case download_urls ext (HuggingFaceMetadata api files)
                     (if truthy variant then variant else guess_variant ext) subfolder of
                Inl e \<Rightarrow> (Raises e, st)
              | Inr remote_files \<Rightarrow>
                  import_remote_model ext (HFModelSource repo_id variant subfolder token')
                    remote_files (Some (HuggingFaceMetadata api files)) config st))"

text \<open>\<open>get_fetcher_from_url\<close> (whether a fetcher is found) and \<open>_import_from_url\<close>.\<close>

definition get_fetcher_from_url :: "string \<Rightarrow> exn + unit" where
  "get_fetcher_from_url url =
     (case re_match hf_url_re (lower url) of
        Some g \<Rightarrow> Inr ()
      | None \<Rightarrow> Inl (Exn ValueError (''Unsupported model source: '' @ CHR 0x27 # url @ [CHR 0x27])))"

definition import_from_url ::
  "externals \<Rightarrow> string \<Rightarrow> string option \<Rightarrow> config option \<Rightarrow> service \<Rightarrow> nat result \<times> service" where
  "import_from_url ext url token config st =
     (case (case get_fetcher_from_url url of
              Inl e \<Rightarrow> Inr None
            | Inr u \<Rightarrow> (case hf_from_url ext url of Inl e \<Rightarrow> Inl e | Inr m \<Rightarrow> Inr (Some m))) of
        Inl e \<Rightarrow> (Raises e, st)
      | Inr metadata \<Rightarrow>
          (case (case metadata of
                   Some (HuggingFaceMetadata api files) \<Rightarrow>
                     download_urls ext (HuggingFaceMetadata api files) None None
                 | _ \<Rightarrow> Inr [\<lparr> rf_url = url, rf_path = Path_of ''.'', rf_size = 0 \<rparr>]) of
             Inl e \<Rightarrow> (Raises e, st)
           | Inr remote_files \<Rightarrow>
               import_remote_model ext (URLModelSource url token) remote_files metadata config st))"

text \<open>
  \<open>import_model\<close>. A job of the table with the same source that is not in a terminal
  state is returned as it is; otherwise a job is made for the source and appended to
  the table. The three variants exhaust the source type, so the final \<open>else\<close> of the
  code has no counterpart.
\<close>

definition import_model ::
  "externals \<Rightarrow> model_source \<Rightarrow> config option \<Rightarrow> service \<Rightarrow> nat result \<times> service" where
  "import_model ext src config st =
     (case filter (\<lambda>x. source (jobs st x) = src \<and> \<not> in_terminal_state (jobs st x))
                  (install_jobs st) of
        x # similar \<Rightarrow> (Returns x, st)
      | [] \<Rightarrow>
          (case (case src of
                   LocalModelSource p ip \<Rightarrow>
                     (case import_local_model p ip config st of
                        (Returns i, st1) \<Rightarrow>
                          (case put_in_queue ext i st1 of
                             (Returns u, st2) \<Rightarrow> (Returns i, st2)
                           | (Raises e, st2) \<Rightarrow> (Raises e, st2)
                           | (Blocks, st2) \<Rightarrow> (Blocks, st2))
                      | other \<Rightarrow> other)
                 | HFModelSource r v f t \<Rightarrow> import_from_hf ext r v f t config st
                 | URLModelSource u t \<Rightarrow> import_from_url ext u t config st) of
             (Returns i, st') \<Rightarrow> (Returns i, st'\<lparr>install_jobs := install_jobs st' @ [i]\<rparr>)
           | other \<Rightarrow> other))"




subsection \<open>Download callbacks\<close>

text \<open>
  The download queue calls these on its own threads with a download part; each runs
  under the lock. A part is named by its reference; its fields are read from the store
  of parts, where the download queue keeps them up to date.
\<close>

definition download_started_callback :: "nat \<Rightarrow> service \<Rightarrow> unit result \<times> service" where
  "download_started_callback d st =
     locked (\<lambda>s.
       case download_cache s (dl_source (downloads s d)) of
         None \<Rightarrow> (Raises (Exn KeyError (dl_source (downloads s d))), s)
       | Some j \<Rightarrow>
           (let s1 = update_job j (\<lambda>x. x\<lparr>status := DOWNLOADING\<rparr>) s
            in case dl_download_path (downloads s1 d) of
                 None \<Rightarrow> (Raises (Exn AssertionError []), s1)
               | Some dp \<Rightarrow>
                   (case (case install_tmpdir (jobs s1 j) of
                            None \<Rightarrow> Inr s1
                          | Some tmp \<Rightarrow>
                              (if local_path (jobs s1 j) = tmp then
                                 (case relative_to dp tmp of
                                    Inl e \<Rightarrow> Inl e
                                  | Inr partial_path \<Rightarrow>
                                      (case parts partial_path of
                                         [] \<Rightarrow> Inl (Exn IndexError ''tuple index out of range'')
                                       | dest_name # rest \<Rightarrow>
                                           Inr (update_job j
                                                  (\<lambda>x. x\<lparr>local_path :=
                                                     joinpath tmp \<lparr> absolute = False, parts = [dest_name] \<rparr>\<rparr>)
                                                  s1)))
                               else Inr s1)) of
                      Inl e \<Rightarrow> (Raises e, s1)
                    | Inr s2 \<Rightarrow>
                        (Returns (),
                         if total_bytes (jobs s2 j) = 0
                         then update_job j
                                (\<lambda>x. x\<lparr>total_bytes :=
                                   sum_list (map (\<lambda>p. dl_total_bytes (downloads s2 p)) (download_parts x))\<rparr>)
                                s2
                         else s2)))) st"

definition download_progress_callback ::
  "externals \<Rightarrow> nat \<Rightarrow> service \<Rightarrow> unit result \<times> service" where
  "download_progress_callback ext d st =
     locked (\<lambda>s.
       case download_cache s (dl_source (downloads s d)) of
         None \<Rightarrow> (Raises (Exn KeyError (dl_source (downloads s d))), s)
       | Some j \<Rightarrow>
           (if cancelled (jobs s j) then cancel_download_parts ext j s
            else (Returns (),
                  signal_job_downloading j
                    (update_job j
                       (\<lambda>x. x\<lparr>bytes := sum_list (map (\<lambda>p. dl_bytes (downloads s p)) (download_parts x))\<rparr>)
                       s)))) st"

definition download_complete_callback ::
  "externals \<Rightarrow> nat \<Rightarrow> service \<Rightarrow> unit result \<times> service" where
  "download_complete_callback ext d st =
     locked (\<lambda>s.
       case download_cache s (dl_source (downloads s d)) of
         None \<Rightarrow> (Raises (Exn KeyError (dl_source (downloads s d))), s)
       | Some j \<Rightarrow>
           (case (if downloading (jobs s j)
                     \<and> (\<forall>p \<in> set (download_parts (jobs s j)). dl_complete (downloads s p))
                  then put_in_queue ext j (signal_job_downloads_done j s)
                  else (Returns (), s)) of
              (Returns u, s1) \<Rightarrow>
                (Returns (),
                 s1\<lparr>download_cache := (download_cache s1)(dl_source (downloads s1 d) := None),
                    downloads_changed_event := True\<rparr>)
            | (Raises e, s1) \<Rightarrow> (Raises e, s1)
            | (Blocks, s1) \<Rightarrow> (Blocks, s1))) st"

definition download_error_callback ::
  "externals \<Rightarrow> nat \<Rightarrow> exn option \<Rightarrow> service \<Rightarrow> unit result \<times> service" where
  "download_error_callback ext d excp st =
     locked (\<lambda>s.
       (let s1 = s\<lparr>download_cache := (download_cache s)(dl_source (downloads s d) := None)\<rparr>
        in case download_cache s (dl_source (downloads s d)) of
             None \<Rightarrow> (Raises (Exn AssertionError []), s1)
           | Some j \<Rightarrow>
               (case excp of
                  None \<Rightarrow> (Raises (Exn AssertionError []), s1)
                | Some e \<Rightarrow>
                    (case cancel_download_parts ext j (update_job j (set_error e) s1) of
                       (Returns u, s2) \<Rightarrow> (Returns (), s2\<lparr>downloads_changed_event := True\<rparr>)
                     | (Raises e', s2) \<Rightarrow> (Raises e', s2)
                     | (Blocks, s2) \<Rightarrow> (Blocks, s2))))) st"

definition download_cancelled_callback ::
  "externals \<Rightarrow> nat \<Rightarrow> service \<Rightarrow> unit result \<times> service" where
  "download_cancelled_callback ext d st =
     locked (\<lambda>s.
       (let s1 = s\<lparr>download_cache := (download_cache s)(dl_source (downloads s d) := None)\<rparr>
        in case download_cache s (dl_source (downloads s d)) of
             None \<Rightarrow> (Returns (), s1)
           | Some j \<Rightarrow>
               (let s2 = s1\<lparr>downloads_changed_event := True\<rparr>;
                    s3 = (if \<not> errored (jobs s2 j) then update_job j cancel s2 else s2)
                in case cancel_download_parts ext j s3 of
                     (Returns u, s4) \<Rightarrow> (Returns (), s4\<lparr>downloads_changed_event := True\<rparr>)
                   | (Raises e, s4) \<Rightarrow> (Raises e, s4)
                   | (Blocks, s4) \<Rightarrow> (Blocks, s4)))) st"


subsection \<open>The install worker\<close>

text \<open>
  \<open>_register_or_install\<close>. \<open>register_path\<close> writes into the mapping it is given, which is
  the job's \<open>config_in\<close> itself.
\<close>

definition register_or_install :: "externals \<Rightarrow> nat \<Rightarrow> service \<Rightarrow> unit result \<times> service" where
  "register_or_install ext j st =
     (let sz = stat_size (disk st) (local_path (jobs st j));
          st1 = signal_job_running j (update_job j (\<lambda>x. x\<lparr>total_bytes := sz, bytes := sz\<rparr>) st);
          st2 = update_job j
                  (\<lambda>x. x\<lparr>config_in :=
                     AList.update ''source_type''
                       (source_type_value (MODEL_SOURCE_TO_TYPE_MAP (source x)))
                       (AList.update ''source'' (source_str (source x)) (config_in x))\<rparr>) st1;
          st3 = (case source_metadata (jobs st2 j) of
                   Some (HuggingFaceMetadata api files) \<Rightarrow>
                     update_job j
                       (\<lambda>x. x\<lparr>config_in := AList.update ''source_api_response'' api (config_in x)\<rparr>) st2
                 | _ \<Rightarrow> st2);
          x = jobs st3 j
      in case (if inplace x
               then register_path ext (local_path x) (config_in x)
                      (update_job j
                         (\<lambda>y. y\<lparr>config_in :=
                            register_path_config (disk st3) (local_path x) (config_in x)\<rparr>) st3)
               else install_path ext (local_path x) (config_in x) st3) of
           (Returns k, st4) \<Rightarrow>
             (case get_model k (record_store st4) of
                Inl e \<Rightarrow> (Raises e, st4)
              | Inr info \<Rightarrow>
                  signal_job_completed j (update_job j (\<lambda>y. y\<lparr>config_out := Some info\<rparr>) st4))
         | (Raises e, st4) \<Rightarrow> (Raises e, st4)
         | (Blocks, st4) \<Rightarrow> (Blocks, st4))"

text \<open>\<open>_set_error\<close>.\<close>

definition worker_set_error :: "nat \<Rightarrow> exn \<Rightarrow> service \<Rightarrow> unit result \<times> service" where
  "worker_set_error j excp st =
     signal_job_errored j
       (update_job j
          (set_error
             (if list_ex (\<lambda>p. case dl_content_type (downloads st p) of
                                 None \<Rightarrow> False | Some t \<Rightarrow> contains ''text/html'' t)
                         (download_parts (jobs st j))
              then Exn InvalidModelConfigException
                     (''At least one file in '' @ as_posix (local_path (jobs st j))
                        @ '' is an HTML page, not a model. This can happen when an access token is required to download.'')
              else excp)) st)"

text \<open>\<open>Queue.task_done\<close>.\<close>

definition task_done :: "service \<Rightarrow> unit result \<times> service" where
  "task_done st =
     (if unfinished_tasks st = 0
      then (Raises (Exn ValueError ''task_done() called too many times''), st)
      else (Returns (), st\<lparr>unfinished_tasks := unfinished_tasks st - 1\<rparr>))"

text \<open>
  The block that \<open>_install_next_item\<close> runs for a job it took from the queue: the
  dispatch on the status, the handler of \<open>except Exception\<close>, and the \<open>finally\<close> clause.
  An exception that the handler or the \<open>finally\<close> clause raises leaves the block.
\<close>

definition process_job :: "externals \<Rightarrow> nat \<Rightarrow> service \<Rightarrow> unit result \<times> service" where
  "process_job ext j st =
     (case (case (if cancelled (jobs st j) then (Returns (), signal_job_cancelled j st)
                  else if errored (jobs st j) then signal_job_errored j st
                  else if waiting (jobs st j) \<or> downloads_done (jobs st j)
                    then register_or_install ext j st
                  else (Returns (), st)) of
              (Raises e, st1) \<Rightarrow> worker_set_error j e st1
            | other \<Rightarrow> other) of
        (Blocks, st2) \<Rightarrow> (Blocks, st2)
      | (r, st2) \<Rightarrow>
          (case (case install_tmpdir (jobs st2 j) of
                   None \<Rightarrow> Inr (disk st2)
                 | Some tmp \<Rightarrow> rmtree (disk st2) tmp) of
             Inl e \<Rightarrow> (Raises e, st2)
           | Inr fs' \<Rightarrow>
               (case task_done (st2\<lparr>disk := fs', install_completed_event := True\<rparr>) of
                  (Returns u, st3) \<Rightarrow> (r, st3)
                | other \<Rightarrow> other)))"

text \<open>
  \<open>_install_next_item\<close>, the loop of the worker thread. It returns when the stop event is
  set and ends with the exception that leaves a job's block. With an empty queue it
  polls again; alone, without another thread to fill the queue or set the stop event,
  that never returns.
\<close>

partial_function (option) install_next_item ::
  "externals \<Rightarrow> service \<Rightarrow> (unit result \<times> service) option" where
  "install_next_item ext st =
     (if stop_event st then Some (Returns (), st)
      else if install_queue st = [] then install_next_item ext st
      else (let r = process_job ext (hd (install_queue st))
                      (st\<lparr>install_queue := tl (install_queue st)\<rparr>)
            in if fst r = Returns () then install_next_item ext (snd r) else Some r))"

subsection \<open>Migration of the legacy configuration\<close>

text \<open>
  The loaded \<open>models.yaml\<close> is a mapping from keys \<open>group/kind/name\<close> to stanzas, themselves
  mappings from field names to strings. \<open>migrate_entries\<close> is the loop over its items;
  a registration that fails is logged and skipped. A stanza without a description
  gives a mapping without that entry.
\<close>

fun migrate_entries ::
  "externals \<Rightarrow> (string \<times> (string \<times> string) list) list \<Rightarrow> service \<Rightarrow> unit result \<times> service" where
  "migrate_entries ext [] st = (Returns (), st)"
| "migrate_entries ext ((model_key, stanza) # items) st =
     (case split_on CHR ''/'' model_key of
        [a, b, model_name] \<Rightarrow>
          (case map_of stanza ''path'' of
             None \<Rightarrow> (Raises (Exn KeyError ''path''), st)
           | Some pth \<Rightarrow>
               (let app = app_config st;
                    model_path = resolve (disk st)
                      (if absolute (Path_of pth) then Path_of pth
                       else joinpath (models_path app) (Path_of pth));
                    config0 = [(''name'', model_name)]
                       @ (case map_of stanza ''description'' of
                            None \<Rightarrow> [] | Some v \<Rightarrow> [(''description'', v)])
                in case (if truthy (map_of stanza ''config'') then
                           (let legacy = joinpath (root_path app) (Path_of (str_of (map_of stanza ''config'')))
                            in case (if is_relative_to legacy (legacy_conf_path app)
                                     then relative_to legacy (legacy_conf_path app) else Inr legacy) of
                                 Inl e \<Rightarrow> Inl e
                               | Inr q \<Rightarrow> Inr (config0 @ [(''config_path'', as_posix q)]))
                         else Inr config0) of
                     Inl e \<Rightarrow> (Raises e, st)
                   | Inr config \<Rightarrow>
                       (case register_path ext model_path config st of
                          (Blocks, st1) \<Rightarrow> (Blocks, st1)
                        | (r, st1) \<Rightarrow> migrate_entries ext items st1)))
      | other \<Rightarrow> (Raises (Exn ValueError ''not enough or too many values to unpack''), st))"

text \<open>\<open>_migrate_yaml\<close>.\<close>

definition migrate_yaml :: "externals \<Rightarrow> service \<Rightarrow> unit result \<times> service" where
  "migrate_yaml ext st =
     (let app = app_config st;
          db_models = record_store st;
          configured = (case legacy_models_yaml_path app of
                          Some q \<Rightarrow> q
                        | None \<Rightarrow> joinpath (joinpath (root_path app) (Path_of ''configs''))
                                    (Path_of ''models.yaml''));
          legacy = (if \<not> exists (disk st) configured then joinpath (root_path app) configured
                    else configured);
          unset = (\<lambda>s. s\<lparr>app_config := (app_config s)\<lparr>legacy_models_yaml_path := None\<rparr>\<rparr>)
      in if exists (disk st) legacy then
           (case stat (disk st) legacy of
              Inl e \<Rightarrow> (Raises (os_error e legacy), st)
            | Inr (Dir es) \<Rightarrow> (Raises (os_error IsADirectoryError legacy), st)
            | Inr (File content) \<Rightarrow>
                (case safe_load ext content of
                   Inl e \<Rightarrow> (Raises e, st)
                 | Inr loaded \<Rightarrow>
                     (case map_of loaded ''__metadata__'' of
                        None \<Rightarrow> (Raises (Exn KeyError ''__metadata__''), st)
                      | Some yaml_metadata \<Rightarrow>
                          (if map_of yaml_metadata ''version'' \<noteq> Some ''3.0.0''
                           then (Raises (Exn ValueError
                                   (''Attempted migration of unsupported models.yaml v''
                                      @ (case map_of yaml_metadata ''version'' of
                                           None \<Rightarrow> ''None'' | Some v \<Rightarrow> v)
                                      @ ''. Only v3.0.0 is supported. Exiting.'')), st)
                           else
                             (let items = AList.delete ''__metadata__'' loaded
                              in case (if db_models = [] \<and> items \<noteq> []
                                       then migrate_entries ext items st else (Returns (), st)) of
                                   (Returns u, st1) \<Rightarrow>
                                     (case with_suffix legacy ''.yaml.bak'' of
                                        Inl e \<Rightarrow> (Raises e, st1)
                                      | Inr bak \<Rightarrow>
                                          (case os_rename (disk st1) legacy bak of
                                             Inl e \<Rightarrow> (Raises e, st1)
                                           | Inr fs' \<Rightarrow> (Returns (), unset (st1\<lparr>disk := fs'\<rparr>))))
                                 | other \<Rightarrow> other)))))
         else (Returns (), unset st))"

section \<open>Examples\<close>

text \<open>
  A models directory that already holds \<open>x.safetensors\<close>, and one that also holds
  \<open>x_01.safetensors\<close>; the file to move lies in \<open>/in\<close>.
\<close>

definition example_one_collision :: filesystem where
  "example_one_collision = \<lparr> entries = [(''in'', Dir [(''x.safetensors'', File ''new'')]),
                         (''models'', Dir [(''x.safetensors'', File ''old'')])], cwd = [] \<rparr>"

definition example_two_collisions :: filesystem where
  "example_two_collisions = \<lparr> entries = [(''in'', Dir [(''x.safetensors'', File ''new'')]),
                         (''models'', Dir [(''x.safetensors'', File ''old''),
                                          (''x_01.safetensors'', File ''older'')])], cwd = [] \<rparr>"

text \<open>
  A service with its models root at \<open>/models\<close>, an empty records store and no jobs, on a
  disk where \<open>foo\<close> and \<open>m.safetensors\<close> are installed already and \<open>/in\<close> holds models
  to install; a probe that classifies every existing path as base \<open>sdxl\<close>, type \<open>main\<close>.
\<close>

definition example_app :: app_config where
  "example_app = \<lparr> models_path = Path_of ''/models'', legacy_conf_path = Path_of ''/root/configs'',
      root_path = Path_of ''/root'', legacy_models_yaml_path = None, remote_api_tokens = None,
      scan_models_on_startup = False \<rparr>"

definition example_probe :: "filesystem \<Rightarrow> path \<Rightarrow> config \<Rightarrow> exn + model_config" where
  "example_probe fs p c =
     (if exists fs p
      then Inr \<lparr> m_key = ''key-'' @ name p, m_base = ''sdxl'', m_type = ''main'', m_path = [],
                 m_config_path = None \<rparr>
      else Inl (Exn InvalidModelConfigException ''no such model''))"

definition example_externals :: externals where
  "example_externals = \<lparr> probe = example_probe, dq_cancel_job = (\<lambda>d. d),
      variants = [[], ''fp16'', ''fp32'', ''onnx'', ''openvino'', ''flax''],
      re_search = (\<lambda>pat s. pat = take (length pat) s), hf_get_token = None,
      hf_from_id = (\<lambda>r v. Inl (Exn (OtherError ''ConnectionError'') [])),
      hf_from_url = (\<lambda>u. Inl (Exn (OtherError ''ConnectionError'') [])),
      download_urls = (\<lambda>m v f. Inr []), fp16_preferred = False,
      mkdtemp_random = (\<lambda>fs. ''a1b2c3''), safe_load = (\<lambda>s. Inr []) \<rparr>"

definition blank_job :: install_job where
  "blank_job = \<lparr> job_id = 0, source = URLModelSource [] None, config_in = [], config_out = None,
      source_metadata = None, local_path = Path_of [], install_tmpdir = None, inplace = False,
      download_parts = [], bytes = 0, total_bytes = 0, status = WAITING, job_error = None,
      error_type = None \<rparr>"

definition blank_download :: download_job where
  "blank_download = \<lparr> dl_source = [], dl_dest = Path_of [], dl_access_token = None,
      dl_status = DL_WAITING, dl_bytes = 0, dl_total_bytes = 0, dl_content_type = None,
      dl_download_path = None \<rparr>"

definition example_service :: "filesystem \<Rightarrow> service" where
  "example_service fs = \<lparr> app_config = example_app, disk = fs, record_store = [],
      event_bus = True, emitted = [], jobs = (\<lambda>j. blank_job), downloads = (\<lambda>d. blank_download),
      next_download = 0, install_jobs = [], install_queue = [], unfinished_tasks = 0,
      lock_held = False, stop_event = False, downloads_changed_event = False,
      install_completed_event = False, download_cache = Map.empty, next_job_id = 0,
      submitted = [], cancel_requests = [] \<rparr>"

definition example_disk :: filesystem where
  "example_disk = \<lparr> entries =
      [(''in'', Dir [(''foo'', Dir [(''model.bin'', File ''weights'')]),
                     (''bar'', Dir [(''model.bin'', File ''other'')]),
                     (''m.safetensors'', File ''new'')]),
       (''models'', Dir [(''sdxl'', Dir [(''main'',
           Dir [(''foo'', Dir [(''model.bin'', File ''weights'')]),
                (''m.safetensors'', File ''old'')])])])],
      cwd = [] \<rparr>"


text \<open>
  A hub whose repository \<open>a/b\<close> has three files of 100 bytes each, and what the download
  queue does to a part between two callbacks (\<open>update_download\<close>): it starts it, giving
  it the path it downloads to, completes it, or fails it.
\<close>

definition example_files :: "remote_file list" where
  "example_files =
     [\<lparr> rf_url = ''https://hub/a/b/model_index.json'', rf_path = Path_of ''b/model_index.json'',
         rf_size = 100 \<rparr>,
      \<lparr> rf_url = ''https://hub/a/b/unet.safetensors'', rf_path = Path_of ''b/unet.safetensors'',
         rf_size = 100 \<rparr>,
      \<lparr> rf_url = ''https://hub/a/b/vae.safetensors'', rf_path = Path_of ''b/vae.safetensors'',
         rf_size = 100 \<rparr>]"

definition example_hub :: externals where
  "example_hub = example_externals
     \<lparr> hf_from_id := (\<lambda>r v. Inr (HuggingFaceMetadata ''{}'' example_files)),
       download_urls := (\<lambda>m v f. case m of HuggingFaceMetadata a files \<Rightarrow> Inr files
                                   | PlainMetadata \<Rightarrow> Inr []) \<rparr>"

definition update_download :: "nat \<Rightarrow> (download_job \<Rightarrow> download_job) \<Rightarrow> service \<Rightarrow> service" where
  "update_download d f st = st\<lparr>downloads := (downloads st)(d := f (downloads st d))\<rparr>"

definition dq_starts :: "nat \<Rightarrow> string \<Rightarrow> service \<Rightarrow> service" where
  "dq_starts d file st =
     update_download d (\<lambda>x. x\<lparr>dl_status := DL_RUNNING, dl_total_bytes := 100,
        dl_download_path := Some (joinpath (dl_dest x) (Path_of file))\<rparr>) st"

definition dq_completes :: "nat \<Rightarrow> service \<Rightarrow> service" where
  "dq_completes d st = update_download d (\<lambda>x. x\<lparr>dl_status := DL_COMPLETED, dl_bytes := 100\<rparr>) st"

definition dq_fails :: "nat \<Rightarrow> service \<Rightarrow> service" where
  "dq_fails d st = update_download d (\<lambda>x. x\<lparr>dl_status := DL_ERROR\<rparr>) st"

text \<open>
  The repository \<open>a/b\<close> is imported as job 0 with parts 0, 1 and 2; then all three parts
  start; then they complete one after the other.
\<close>

definition remote_imported :: service where
  "remote_imported =
     snd (import_model example_hub (HFModelSource ''a/b'' None None None) None
            (example_service example_disk))"

definition remote_started :: service where
  "remote_started =
     snd (download_started_callback 2 (dq_starts 2 ''vae.safetensors''
       (snd (download_started_callback 1 (dq_starts 1 ''unet.safetensors''
          (snd (download_started_callback 0 (dq_starts 0 ''model_index.json'' remote_imported))))))))"

definition remote_two_complete :: service where
  "remote_two_complete =
     dq_completes 2
       (snd (download_complete_callback example_hub 1 (dq_completes 1
          (snd (download_complete_callback example_hub 0 (dq_completes 0 remote_started))))))"

definition remote_downloaded :: service where
  "remote_downloaded = snd (download_complete_callback example_hub 2 remote_two_complete)"

text \<open>
  The first part of the repository fails after it started (\<open>remote_failed\<close>); and the
  job is cancelled by its submitter after all its parts completed (\<open>remote_cancelled\<close>).
\<close>

definition remote_failed :: service where
  "remote_failed =
     snd (download_error_callback example_hub 0 (Some (Exn (OtherError ''HTTPError'') ''404 Not Found''))
            (dq_fails 0
               (snd (download_started_callback 0 (dq_starts 0 ''model_index.json'' remote_imported)))))"

definition remote_cancelled :: service where
  "remote_cancelled = snd (cancel_job example_hub 0 remote_downloaded)"

text \<open>
  A legacy \<open>models.yaml\<close> of version 3.0.0 with two entries, and one of version 2.0.0,
  each at \<open>/root/configs/models.yaml\<close>; \<open>yaml.safe_load\<close> for these two contents.
\<close>

definition example_yaml :: "string \<Rightarrow> exn + (string \<times> (string \<times> string) list) list" where
  "example_yaml content =
     (if content = ''v3'' then
        Inr [(''__metadata__'', [(''version'', ''3.0.0'')]),
             (''sd-1/main/foo'', [(''path'', ''/in/foo''), (''description'', ''a model'')]),
             (''sdxl/main/bar'', [(''path'', ''/in/bar'')])]
      else if content = ''v2'' then
        Inr [(''__metadata__'', [(''version'', ''2.0.0'')]),
             (''sd-1/main/foo'', [(''path'', ''/in/foo'')])]
      else Inl (Exn (OtherError ''YAMLError'') []))"

definition legacy_disk :: "string \<Rightarrow> filesystem" where
  "legacy_disk content =
     example_disk\<lparr>entries := entries example_disk
        @ [(''root'', Dir [(''configs'', Dir [(''models.yaml'', File content)])])]\<rparr>"

definition legacy_externals :: externals where
  "legacy_externals = example_externals\<lparr>safe_load := example_yaml\<rparr>"








section \<open>Properties\<close>

subsection \<open>The collision-safe move\<close>

lemma digits_chars: "set (digits n) \<subseteq> set ''0123456789''"
proof (induction n rule: digits.induct)
  case (1 n)
  have d: "digit_char k \<in> set ''0123456789''" if "k < 10" for k
  proof -
    have "k < length ''0123456789''" using that by simp
    then show ?thesis unfolding digit_char_def by (rule nth_mem)
  qed
  show ?case
  proof (cases "n < 10")
    case True
    then show ?thesis using d [of n] by (subst digits.simps) simp
  next
    case False
    have "n mod 10 < 10" by simp
    then have "digit_char (n mod 10) \<in> set ''0123456789''" by (rule d)
    then show ?thesis using False 1 by (subst digits.simps) auto
  qed
qed

lemma fmt_02d_no_slash: "CHR ''/'' \<notin> set (fmt_02d k)"
  using digits_chars [of k] by (auto simp: fmt_02d_def)

lemma fmt_02d_small: "k < 10 \<Longrightarrow> fmt_02d k = [CHR ''0'', digit_char k]"
  by (simp add: fmt_02d_def digits.simps [of k])

lemma jiggered_eq:
  assumes "name p \<noteq> []" "CHR ''/'' \<notin> set (name p)"
  shows "jiggered p k = Inr (p\<lparr>parts := butlast (parts p) @ [stem p @ ''_'' @ fmt_02d k @ suffix p]\<rparr>)"
proof -
  have "set (stem p) \<subseteq> set (name p)"
    by (auto simp: stem_def stem_of_def dest: in_set_takeD)
  moreover have "set (suffix p) \<subseteq> set (name p)"
    by (auto simp: suffix_def suffix_of_def has_suffix_def after_last_dot_def dest: set_takeWhileD)
  ultimately show ?thesis using assms fmt_02d_no_slash [of k]
    by (auto simp: jiggered_def with_stem_def with_name_def append_eq_Cons_conv)
qed

lemma jigger_free: "\<not> exists fs p \<Longrightarrow> jigger fs p c = Some (Inr p)"
  by (subst jigger.simps) simp

lemma jigger_skip:
  assumes "exists fs p" "\<And>j. \<exists>q. jiggered p j = Inr (cand j)"
    "\<not> exists fs (cand k)" "\<forall>j. c \<le> j \<and> j < k \<longrightarrow> exists fs (cand j)" "c \<le> k"
  shows "jigger fs p c = Some (Inr (cand k))"
  using assms(4,5)
proof (induction "k - c" arbitrary: c)
  case 0
  then have "c = k" by simp
  then show ?case using assms(1,2,3)
    by (subst jigger.simps) (simp add: jigger_free)
next
  case (Suc d)
  then have "c < k" by simp
  then have ex: "exists fs (cand c)" using Suc.prems by simp
  have "jigger fs p (c + 1) = Some (Inr (cand k))"
    using Suc by (intro Suc.hyps) auto
  then show ?case using assms(1,2) ex
    by (subst jigger.simps) simp
qed

text \<open>
  C6. \<open>_move_model\<close> with equal source and destination returns the path and leaves the
  filesystem alone. Otherwise it moves to the destination when that is free; and when
  the destination exists, it moves to the first name \<open>stem_NN.suffix\<close> (counter from 1,
  written with at least two digits, the suffix kept) that does not exist, where every
  smaller counter names an existing entry.
\<close>

theorem move_model_collision_safe:
  fixes new_path :: path
  defines "numbered \<equiv> \<lambda>k. new_path\<lparr>parts := butlast (parts new_path)
                 @ [stem new_path @ ''_'' @ fmt_02d k @ suffix new_path]\<rparr>"
  shows "move_model fs new_path new_path = Some (Inr new_path, fs)
    \<and> (old_path \<noteq> new_path \<and> mkdir_parents fs (parent new_path) = Inr fs1
         \<and> \<not> exists fs1 new_path
       \<longrightarrow> move_model fs old_path new_path =
             Some (case move fs1 old_path new_path of
                     Inl e \<Rightarrow> (Inl e, fs1) | Inr fs2 \<Rightarrow> (Inr new_path, fs2)))
    \<and> (old_path \<noteq> new_path \<and> mkdir_parents fs (parent new_path) = Inr fs1
         \<and> exists fs1 new_path \<and> name new_path \<noteq> [] \<and> CHR ''/'' \<notin> set (name new_path)
         \<and> 1 \<le> k \<and> (\<forall>j. 1 \<le> j \<and> j < k \<longrightarrow> exists fs1 (numbered j))
         \<and> \<not> exists fs1 (numbered k)
       \<longrightarrow> move_model fs old_path new_path =
             Some (case move fs1 old_path (numbered k) of
                     Inl e \<Rightarrow> (Inl e, fs1) | Inr fs2 \<Rightarrow> (Inr (numbered k), fs2)))
    \<and> (k < 10 \<longrightarrow> fmt_02d k = [CHR ''0'', digit_char k])"
proof (intro conjI impI)
  show "move_model fs new_path new_path = Some (Inr new_path, fs)"
    by (simp add: move_model_def)
next
  assume "old_path \<noteq> new_path \<and> mkdir_parents fs (parent new_path) = Inr fs1
         \<and> \<not> exists fs1 new_path"
  then show "move_model fs old_path new_path =
             Some (case move fs1 old_path new_path of
                     Inl e \<Rightarrow> (Inl e, fs1) | Inr fs2 \<Rightarrow> (Inr new_path, fs2))"
    by (simp add: move_model_def jigger_free split: sum.splits)
next
  assume a: "old_path \<noteq> new_path \<and> mkdir_parents fs (parent new_path) = Inr fs1
         \<and> exists fs1 new_path \<and> name new_path \<noteq> [] \<and> CHR ''/'' \<notin> set (name new_path)
         \<and> 1 \<le> k \<and> (\<forall>j. 1 \<le> j \<and> j < k \<longrightarrow> exists fs1 (numbered j))
         \<and> \<not> exists fs1 (numbered k)"
  then have "\<And>j. jiggered new_path j = Inr (numbered j)"
    unfolding numbered_def by (simp add: jiggered_eq)
  then have "jigger fs1 new_path 1 = Some (Inr (numbered k))"
    using a by (intro jigger_skip) auto
  then show "move_model fs old_path new_path =
             Some (case move fs1 old_path (numbered k) of
                     Inl e \<Rightarrow> (Inl e, fs1) | Inr fs2 \<Rightarrow> (Inr (numbered k), fs2))"
    using a by (simp add: move_model_def split: sum.splits)
next
  assume "k < 10"
  then show "fmt_02d k = [CHR ''0'', digit_char k]" by (rule fmt_02d_small)
qed


text \<open>
  Moving \<open>x.safetensors\<close> into a directory that holds \<open>x.safetensors\<close> gives
  \<open>x_01.safetensors\<close>; with \<open>x_01.safetensors\<close> there as well it gives \<open>x_02.safetensors\<close>.
\<close>

theorem move_model_collision_safe_witness:
  "move_model example_one_collision (Path_of ''/in/x.safetensors'') (Path_of ''/models/x.safetensors'') =
     Some (Inr (Path_of ''/models/x_01.safetensors''),
           \<lparr> entries = [(''in'', Dir []),
                        (''models'', Dir [(''x.safetensors'', File ''old''),
                                         (''x_01.safetensors'', File ''new'')])], cwd = [] \<rparr>)
   \<and> move_model example_two_collisions (Path_of ''/in/x.safetensors'') (Path_of ''/models/x.safetensors'') =
     Some (Inr (Path_of ''/models/x_02.safetensors''),
           \<lparr> entries = [(''in'', Dir []),
                        (''models'', Dir [(''x.safetensors'', File ''old''),
                                         (''x_01.safetensors'', File ''older''),
                                         (''x_02.safetensors'', File ''new'')])], cwd = [] \<rparr>)"
proof -
  let ?src = "Path_of ''/in/x.safetensors''" and ?dst = "Path_of ''/models/x.safetensors''"
  let ?num = "\<lambda>k. ?dst\<lparr>parts := butlast (parts ?dst) @ [stem ?dst @ ''_'' @ fmt_02d k @ suffix ?dst]\<rparr>"
  have f1: "fmt_02d 1 = ''01''" and f2: "fmt_02d 2 = ''02''"
    by (simp_all add: fmt_02d_def digits.simps [of "Suc 0"] digits.simps [of 2] digit_char_def)
  have n1: "?num 1 = Path_of ''/models/x_01.safetensors''"
    unfolding f1 by code_simp
  have n2: "?num 2 = Path_of ''/models/x_02.safetensors''"
    unfolding f2 by code_simp
  have ne: "?src \<noteq> ?dst" by code_simp
  have nm: "name ?dst \<noteq> [] \<and> CHR ''/'' \<notin> set (name ?dst)" by code_simp
  have a1: "mkdir_parents example_one_collision (parent ?dst) = Inr example_one_collision" by code_simp
  have a2: "exists example_one_collision ?dst" by code_simp
  have a3: "\<not> exists example_one_collision (?num 1)" unfolding n1 by code_simp
  have b1: "mkdir_parents example_two_collisions (parent ?dst) = Inr example_two_collisions" by code_simp
  have b2: "exists example_two_collisions ?dst" by code_simp
  have b3: "\<forall>j. 1 \<le> j \<and> j < (2::nat) \<longrightarrow> exists example_two_collisions (?num j)"
  proof (intro allI impI)
    fix j :: nat assume "1 \<le> j \<and> j < 2"
    then have "j = 1" by simp
    then show "exists example_two_collisions (?num j)" unfolding \<open>j = 1\<close> n1 by code_simp
  qed
  have b4: "\<not> exists example_two_collisions (?num 2)" unfolding n2 by code_simp
  have r1: "move_model example_one_collision ?src ?dst =
      Some (case move example_one_collision ?src (?num 1) of Inl e \<Rightarrow> (Inl e, example_one_collision) | Inr fs2 \<Rightarrow> (Inr (?num 1), fs2))"
    using move_model_collision_safe [where fs = example_one_collision and ?fs1.0 = example_one_collision and old_path = ?src
        and new_path = ?dst and k = 1] ne nm a1 a2 a3 by simp
  have r2: "move_model example_two_collisions ?src ?dst =
      Some (case move example_two_collisions ?src (?num 2) of Inl e \<Rightarrow> (Inl e, example_two_collisions) | Inr fs2 \<Rightarrow> (Inr (?num 2), fs2))"
    using move_model_collision_safe [where fs = example_two_collisions and ?fs1.0 = example_two_collisions and old_path = ?src
        and new_path = ?dst and k = 2] ne nm b1 b2 b3 b4 by simp
  show ?thesis unfolding r1 r2 n1 n2 by code_simp
qed


subsection \<open>Existing paths\<close>

lemma walk_append:
  "walk n (xs @ ys) = (case walk n xs of Inl e \<Rightarrow> Inl e | Inr m \<Rightarrow> walk m ys)"
  by (induction n xs rule: walk.induct) (auto split: option.splits)

lemma canon_append:
  "canon r cur (xs @ ys) = (case canon r cur xs of Inl e \<Rightarrow> Inl e | Inr m \<Rightarrow> canon r m ys)"
  by (induction r cur xs rule: canon.induct) (auto split: sum.splits node.splits)

lemma walk_snoc_dir:
  assumes "walk n (xs @ [c]) = Inr m"
  shows "\<exists>es. walk n xs = Inr (Dir es)"
proof (cases "walk n xs")
  case (Inl e)
  then show ?thesis using assms by (simp add: walk_append)
next
  case (Inr k)
  then show ?thesis using assms by (cases k) (auto simp: walk_append)
qed

lemma exists_os_mkdir:
  assumes "exists fs p"
  shows "os_mkdir fs p = Inl FileExistsError"
proof (cases "parts p = [] \<or> last (parts p) = ''..''")
  case True
  then show ?thesis using assms
    by (auto simp: os_mkdir_def target_def exists_def split: sum.splits)
next
  case False
  then have ps: "parts p = butlast (parts p) @ [last (parts p)]" by simp
  obtain n where st: "stat fs p = Inr n"
    using assms by (auto simp: exists_def split: sum.splits)
  let ?start = "if absolute p then [] else cwd fs"
  obtain loc where loc: "canon (root fs) ?start (parts p) = Inr loc" and w: "walk (root fs) loc = Inr n"
    using st by (auto simp: stat_def locate_def split: sum.splits)
  have "canon (root fs) ?start (butlast (parts p) @ [last (parts p)]) = Inr loc"
    using loc ps by simp
  then obtain m where m: "canon (root fs) ?start (butlast (parts p)) = Inr m"
    and l: "loc = m @ [last (parts p)]"
    using False by (auto simp: canon_append split: sum.splits)
  obtain es where es: "walk (root fs) m = Inr (Dir es)"
    using w l walk_snoc_dir by blast
  have lp: "locate fs (parent p) = Inr m"
    using m by (simp add: locate_def parent_def)
  show ?thesis using False lp es w l
    by (simp add: os_mkdir_def target_def)
qed

lemma exists_parent_is_dir:
  assumes "exists fs p" "parts p \<noteq> []"
  shows "is_dir fs (parent p)"
proof -
  have ps: "parts p = butlast (parts p) @ [last (parts p)]" using assms by simp
  obtain n where st: "stat fs p = Inr n"
    using assms by (auto simp: exists_def split: sum.splits)
  let ?start = "if absolute p then [] else cwd fs"
  obtain loc where loc: "canon (root fs) ?start (parts p) = Inr loc" and w: "walk (root fs) loc = Inr n"
    using st by (auto simp: stat_def locate_def split: sum.splits)
  have c: "canon (root fs) ?start (butlast (parts p) @ [last (parts p)]) = Inr loc"
    using loc ps by simp
  then obtain m where m: "canon (root fs) ?start (butlast (parts p)) = Inr m"
    by (auto simp: canon_append split: sum.splits)
  have "\<exists>es. walk (root fs) m = Inr (Dir es)"
  proof (cases "last (parts p) = ''..''")
    case True
    then show ?thesis using c m by (auto simp: canon_append split: sum.splits node.splits)
  next
    case False
    then have "loc = m @ [last (parts p)]" using c m by (auto simp: canon_append)
    then show ?thesis using w walk_snoc_dir by blast
  qed
  then show ?thesis using m
    by (auto simp: is_dir_def stat_def locate_def parent_def)
qed

lemma is_dir_exists: "is_dir fs p \<Longrightarrow> exists fs p"
  by (auto simp: is_dir_def exists_def split: sum.splits)

lemma is_dir_mkdir_parents:
  assumes "is_dir fs p"
  shows "mkdir_parents fs p = Inr fs"
  using assms exists_os_mkdir [OF is_dir_exists [OF assms]]
  by (subst mkdir_parents.simps) simp

lemma exists_mkdir_parent:
  assumes "exists fs p"
  shows "mkdir_parents fs (parent p) = Inr fs
       \<or> mkdir_parents fs (parent p) = Inl (os_error FileExistsError (parent p))"
proof (cases "parts p = []")
  case True
  then have "parent p = p" by (simp add: parent_def)
  then show ?thesis using exists_os_mkdir [OF assms]
    by (subst (1 2) mkdir_parents.simps) simp
next
  case False
  then show ?thesis using is_dir_mkdir_parents [OF exists_parent_is_dir [OF assms False]] by simp
qed

lemma copy_model_dir_duplicate:
  assumes "old_path \<noteq> new_path" "is_dir fs old_path" "exists fs new_path"
  shows "\<exists>e. copy_model fs old_path new_path = (Inl e, fs) \<and> exn_kind e = FileExistsError"
proof -
  consider (made) "mkdir_parents fs (parent new_path) = Inr fs"
    | (refused) "mkdir_parents fs (parent new_path) = Inl (os_error FileExistsError (parent new_path))"
    using exists_mkdir_parent [OF assms(3)] by blast
  then show ?thesis
  proof cases
    case made
    obtain es where "stat fs old_path = Inr (Dir es)"
      using assms(2) by (auto simp: is_dir_def split: sum.splits node.splits)
    then have "copytree fs old_path new_path = Inl (os_error FileExistsError new_path)"
      using made exists_os_mkdir [OF assms(3)]
      by (auto simp: copytree_def)
    then show ?thesis using assms made by (simp add: copy_model_def os_error_def)
  next
    case refused
    then show ?thesis using assms by (simp add: copy_model_def os_error_def)
  qed
qed


subsection \<open>Installing onto an existing destination\<close>

text \<open>
  C1 (amended). With the destination computed from the probe's result: when the model
  path is a directory other than the destination and the destination exists,
  \<open>install_path\<close> raises \<open>DuplicateModelException\<close> and leaves the disk, the records and
  the rest of the state as they were; when the model path is the destination itself,
  nothing is copied and the model is registered where it lies.
\<close>

theorem install_path_duplicate:
  assumes "probe ext (disk st) model_path config = Inr info"
    and "preferred_name config model_path = Inr preferred"
    and "dest = dest_path (app_config st) info preferred model_path"
  shows "(model_path \<noteq> dest \<and> is_dir (disk st) model_path \<and> exists (disk st) dest
           \<longrightarrow> install_path ext model_path config st =
                 (Raises (Exn DuplicateModelException
                    (''A model named '' @ name model_path @ '' is already installed at ''
                       @ as_posix dest)), st))
       \<and> (model_path = dest
           \<longrightarrow> install_path ext model_path config st =
                 register ext model_path config (Some info) st)"
proof (intro conjI impI)
  assume a: "model_path \<noteq> dest \<and> is_dir (disk st) model_path \<and> exists (disk st) dest"
  then obtain e where "copy_model (disk st) model_path dest = (Inl e, disk st)"
      "exn_kind e = FileExistsError"
    using copy_model_dir_duplicate [of model_path dest "disk st"] by blast
  then show "install_path ext model_path config st =
                 (Raises (Exn DuplicateModelException
                    (''A model named '' @ name model_path @ '' is already installed at ''
                       @ as_posix dest)), st)"
    using assms by (simp add: install_path_def)
next
  assume "model_path = dest"
  then show "install_path ext model_path config st = register ext model_path config (Some info) st"
    using assms by (simp add: install_path_def copy_model_def)
qed

text \<open>A second \<open>install_path\<close> of the directory \<open>/in/bar\<close> raises the duplicate error.\<close>

theorem install_path_duplicate_witness:
  "fst (install_path example_externals (Path_of ''/in/bar'') [] (example_service example_disk))
     = Returns ''key-bar''
   \<and> install_path example_externals (Path_of ''/in/bar'') []
        (snd (install_path example_externals (Path_of ''/in/bar'') [] (example_service example_disk)))
     = (Raises (Exn DuplicateModelException
                 ''A model named bar is already installed at /models/sdxl/main/bar''),
        snd (install_path example_externals (Path_of ''/in/bar'') [] (example_service example_disk)))"
proof -
  let ?p = "Path_of ''/in/bar''"
  let ?d = "Path_of ''/models/sdxl/main/bar''"
  let ?st = "snd (install_path example_externals ?p [] (example_service example_disk))"
  let ?info = "\<lparr> m_key = ''key-bar'', m_base = ''sdxl'', m_type = ''main'', m_path = [],
                 m_config_path = None \<rparr>"
  have first: "fst (install_path example_externals ?p [] (example_service example_disk))
     = Returns ''key-bar''" by code_simp
  have pr: "probe example_externals (disk ?st) ?p [] = Inr ?info" by code_simp
  have pn: "preferred_name [] ?p = Inr None" by code_simp
  have d: "?d = dest_path (app_config ?st) ?info None ?p" by code_simp
  have h: "?p \<noteq> ?d \<and> is_dir (disk ?st) ?p \<and> exists (disk ?st) ?d" by code_simp
  have n: "''A model named '' @ name ?p @ '' is already installed at '' @ as_posix ?d
        = ''A model named bar is already installed at /models/sdxl/main/bar''" by code_simp
  show ?thesis using install_path_duplicate [OF pr pn d] h first unfolding n by simp
qed

text \<open>
  C1 as stated fails: the model at \<open>/models/sdxl/main/foo\<close> is probed to that very
  destination, which exists, and \<open>install_path\<close> returns its key.
\<close>

theorem install_path_existing_destination_counterexample:
  "exists example_disk (Path_of ''/models/sdxl/main/foo'')
   \<and> dest_path example_app \<lparr> m_key = ''key-foo'', m_base = ''sdxl'', m_type = ''main'',
        m_path = [], m_config_path = None \<rparr> None (Path_of ''/models/sdxl/main/foo'')
       = Path_of ''/models/sdxl/main/foo''
   \<and> fst (install_path example_externals (Path_of ''/models/sdxl/main/foo'') []
             (example_service example_disk)) = Returns ''key-foo''"
  by code_simp

text \<open>
  For a single file, \<open>copyfile\<close> does not refuse an existing destination: the installed
  \<open>m.safetensors\<close> is overwritten and \<open>install_path\<close> goes on to register.
\<close>

lemma install_path_overwrites_file:
  "stat example_disk (Path_of ''/models/sdxl/main/m.safetensors'') = Inr (File ''old'')
   \<and> fst (install_path example_externals (Path_of ''/in/m.safetensors'') []
             (example_service example_disk)) = Returns ''key-m.safetensors''
   \<and> stat (disk (snd (install_path example_externals (Path_of ''/in/m.safetensors'') []
             (example_service example_disk)))) (Path_of ''/models/sdxl/main/m.safetensors'')
       = Inr (File ''new'')"
  by code_simp

subsection \<open>The recorded path\<close>

lemma find_appended:
  "k \<notin> set (map m_key xs) \<Longrightarrow> m_key i = k \<Longrightarrow> find (\<lambda>x. m_key x = k) (xs @ [i]) = Some i"
  by (induction xs) auto

lemma install_path_registers:
  assumes "install_path ext model_path config st = (Returns k, st')"
  shows "\<exists>info new_path fs'. register ext new_path config (Some info) (st\<lparr>disk := fs'\<rparr>) = (Returns k, st')"
  using assms
  by (auto simp: install_path_def Let_def split: sum.splits prod.splits if_splits)

text \<open>
  C7. When \<open>_register\<close> returns a key, the record stored under that key has the path
  \<open>as_posix q\<close>, where \<open>q\<close> is relative exactly when the resolved model path lies inside
  the models root: then the root joined with \<open>q\<close> is the resolved path; otherwise \<open>q\<close> is
  the resolved, absolute path itself.
\<close>

theorem register_relative_iff_inside:
  assumes "register ext model_path config info_opt st = (Returns k, st')"
  defines "resolved \<equiv> resolve (disk st) model_path"
      and "inside \<equiv> is_relative_to (resolve (disk st) model_path) (models_path (app_config st))"
  shows "\<exists>info q. get_model k (record_store st') = Inr info
           \<and> m_path info = as_posix q
           \<and> (absolute q \<longleftrightarrow> \<not> inside)
           \<and> (inside \<longrightarrow> joinpath (models_path (app_config st)) q = resolved)
           \<and> (\<not> inside \<longrightarrow> q = resolved)"
proof -
  let ?root = "models_path (app_config st)"
  obtain info where i: "(case info_opt of Some i \<Rightarrow> Inr i | None \<Rightarrow> probe ext (disk st) model_path config) = Inr info"
    using assms(1) by (auto simp: register_def split: sum.splits)
  obtain q where q: "(if inside then relative_to resolved ?root else Inr resolved) = Inr q"
    using assms(1) i unfolding register_def Let_def inside_def resolved_def
    by (auto split: sum.splits)
  obtain cp where cp: "add_model (info\<lparr>m_path := as_posix q, m_config_path := cp\<rparr>) (record_store st)
        = Inr (record_store st')" and k: "k = m_key info"
    using assms(1) i q unfolding register_def Let_def inside_def resolved_def
    by (auto split: sum.splits)
  let ?info = "info\<lparr>m_path := as_posix q, m_config_path := cp\<rparr>"
  have fresh: "m_key info \<notin> set (map m_key (record_store st))"
    and st': "record_store st' = record_store st @ [?info]"
    using cp by (auto simp: add_model_def split: if_splits)
  have "find (\<lambda>i. m_key i = k) (record_store st @ [?info]) = Some ?info"
    using fresh k by (intro find_appended) simp_all
  then have g: "get_model k (record_store st') = Inr ?info"
    by (simp add: get_model_def st')
  have abs: "absolute resolved" by (simp add: resolved_def resolve_def)
  have a: "absolute q \<longleftrightarrow> \<not> inside"
    using q abs by (auto simp: relative_to_def split: if_splits)
  have b: "inside \<longrightarrow> joinpath ?root q = resolved"
  proof
    assume ins: inside
    then have r: "is_relative_to resolved ?root" by (simp add: inside_def resolved_def)
    then have "q = \<lparr> absolute = False, parts = drop (length (parts ?root)) (parts resolved) \<rparr>"
      using q ins by (simp add: relative_to_def)
    moreover have "parts ?root @ drop (length (parts ?root)) (parts resolved) = parts resolved"
      using r by (metis append_take_drop_id is_relative_to_def)
    moreover have "absolute ?root" using r abs by (simp add: is_relative_to_def)
    ultimately show "joinpath ?root q = resolved" using abs
      by (intro path.equality) (simp_all add: joinpath_def)
  qed
  have c: "\<not> inside \<longrightarrow> q = resolved" using q by (auto split: if_splits)
  show ?thesis using g a b c by (intro exI [of _ ?info] exI [of _ q]) simp
qed


text \<open>
  Registering \<open>/models/sdxl/main/foo\<close> stores \<open>sdxl/main/foo\<close>; registering \<open>/in/foo\<close>,
  outside the root, stores \<open>/in/foo\<close>.
\<close>

theorem register_relative_iff_inside_witness:
  "(\<exists>info q. get_model ''key-foo'' (record_store (snd (register example_externals
        (Path_of ''/models/sdxl/main/foo'') [] None (example_service example_disk)))) = Inr info
      \<and> m_path info = as_posix q \<and> \<not> absolute q
      \<and> joinpath (Path_of ''/models'') q = Path_of ''/models/sdxl/main/foo''
      \<and> m_path info = ''sdxl/main/foo'')
   \<and> (\<exists>info. get_model ''key-foo'' (record_store (snd (register example_externals
        (Path_of ''/in/foo'') [] None (example_service example_disk)))) = Inr info
      \<and> m_path info = ''/in/foo'')"
proof -
  let ?st = "example_service example_disk"
  let ?p = "Path_of ''/models/sdxl/main/foo''"
  let ?o = "Path_of ''/in/foo''"
  let ?a = "register example_externals ?p [] None ?st"
  let ?b = "register example_externals ?o [] None ?st"
  have "fst ?a = Returns ''key-foo''" by code_simp
  then have ra: "?a = (Returns ''key-foo'', snd ?a)" by (metis prod.collapse)
  have "fst ?b = Returns ''key-foo''" by code_simp
  then have rb: "?b = (Returns ''key-foo'', snd ?b)" by (metis prod.collapse)
  have ins: "is_relative_to (resolve (disk ?st) ?p) (models_path (app_config ?st))" by code_simp
  have out: "\<not> is_relative_to (resolve (disk ?st) ?o) (models_path (app_config ?st))" by code_simp
  have rp: "resolve (disk ?st) ?p = ?p" and ro: "resolve (disk ?st) ?o = ?o"
    and mp: "models_path (app_config ?st) = Path_of ''/models''" by code_simp+
  obtain info q where a: "get_model ''key-foo'' (record_store (snd ?a)) = Inr info"
      "m_path info = as_posix q" "\<not> absolute q" "joinpath (Path_of ''/models'') q = ?p"
    using register_relative_iff_inside [OF ra] ins rp mp by auto
  have ga: "get_model ''key-foo'' (record_store (snd ?a)) = Inr \<lparr> m_key = ''key-foo'',
      m_base = ''sdxl'', m_type = ''main'', m_path = ''sdxl/main/foo'', m_config_path = None \<rparr>"
    by code_simp
  have pa: "m_path info = ''sdxl/main/foo''" using a(1) ga by fastforce
  obtain info' q' where b: "get_model ''key-foo'' (record_store (snd ?b)) = Inr info'"
      "m_path info' = as_posix q'" "q' = ?o"
    using register_relative_iff_inside [OF rb] out ro by auto
  have "as_posix ?o = ''/in/foo''" by code_simp
  then have pb: "m_path info' = ''/in/foo''" using b by simp
  show ?thesis using a pa b(1) pb by blast
qed


subsection \<open>Reading a source string\<close>









subsection \<open>Reading a source string: examples\<close>



subsection \<open>Submitting a source twice\<close>

text \<open>
  C5. When the job table holds a job with the submitted source that is not in a terminal
  state, \<open>import_model\<close> returns the first such job of the table and leaves the whole
  state of the service as it was: no job is made, no id is taken, nothing is queued and
  the table is the same.
\<close>

theorem import_model_returns_existing_job:
  assumes "x \<in> set (install_jobs st)" and "source (jobs st x) = src"
    and "\<not> in_terminal_state (jobs st x)"
  defines "similar \<equiv> filter (\<lambda>y. source (jobs st y) = src \<and> \<not> in_terminal_state (jobs st y))
                               (install_jobs st)"
  shows "import_model ext src config st = (Returns (hd similar), st)
       \<and> hd similar \<in> set (install_jobs st)
       \<and> source (jobs st (hd similar)) = src
       \<and> \<not> in_terminal_state (jobs st (hd similar))"
proof -
  have "x \<in> set similar" using assms(1,2,3) by (simp add: similar_def)
  then obtain y ys where s: "similar = y # ys" by (cases similar) auto
  then have "y \<in> set similar" by simp
  then have y: "y \<in> set (install_jobs st)" "source (jobs st y) = src"
      "\<not> in_terminal_state (jobs st y)"
    by (simp_all add: similar_def)
  have "import_model ext src config st = (Returns y, st)"
    using s unfolding import_model_def similar_def by simp
  then show ?thesis using s y by simp
qed

text \<open>
  The repository \<open>a/b\<close> is being downloaded as job 0; submitting it again returns job 0
  and changes nothing.
\<close>

theorem import_model_returns_existing_job_witness:
  "import_model example_hub (HFModelSource ''a/b'' None None None) None remote_started
     = (Returns 0, remote_started)"
proof -
  let ?src = "HFModelSource ''a/b'' None None None"
  have t: "install_jobs remote_started = [0]" by code_simp
  have a: "0 \<in> set (install_jobs remote_started)" unfolding t by simp
  have b: "source (jobs remote_started 0) = ?src" by code_simp
  have c: "\<not> in_terminal_state (jobs remote_started 0)" by code_simp
  have "filter (\<lambda>y. source (jobs remote_started y) = ?src
            \<and> \<not> in_terminal_state (jobs remote_started y)) (install_jobs remote_started) = [0]"
    unfolding t using b c by simp
  then show ?thesis
    using import_model_returns_existing_job [OF a b c, of example_hub None] by simp
qed
subsection \<open>A cancelled download that is not in the cache\<close>

text \<open>
  C10. When the source of the download part is not in the download cache, the cancelled
  callback leaves the state of the service as it was (no job, event, queue or cache
  entry changes), and with the lock free it returns without raising. The error
  callback, in the same situation, raises \<open>AssertionError\<close>.
\<close>

theorem download_cancelled_callback_unknown_source:
  assumes "download_cache st (dl_source (downloads st d)) = None"
  shows "snd (download_cancelled_callback ext d st) = st
       \<and> (\<not> lock_held st \<longrightarrow> download_cancelled_callback ext d st = (Returns (), st))
       \<and> (\<not> lock_held st \<longrightarrow>
            fst (download_error_callback ext d excp st) = Raises (Exn AssertionError []))"
proof -
  have idem: "(download_cache st)(dl_source (downloads st d) := None) = download_cache st"
    using assms by (simp add: fun_upd_idem)
  have r: "\<not> lock_held st \<Longrightarrow> download_cancelled_callback ext d st = (Returns (), st)"
    using assms idem by (simp add: download_cancelled_callback_def locked_def)
  have b: "lock_held st \<Longrightarrow> download_cancelled_callback ext d st = (Blocks, st)"
    by (simp add: download_cancelled_callback_def locked_def)
  have e: "\<not> lock_held st \<Longrightarrow>
      fst (download_error_callback ext d excp st) = Raises (Exn AssertionError [])"
    using assms by (simp add: download_error_callback_def locked_def)
  show ?thesis using r b e by (cases "lock_held st") simp_all
qed

text \<open>After the three parts completed, their sources have left the cache.\<close>

theorem download_cancelled_callback_unknown_source_witness:
  "download_cancelled_callback example_hub 1 remote_downloaded = (Returns (), remote_downloaded)
   \<and> fst (download_error_callback example_hub 1 (Some (Exn (OtherError ''HTTPError'') ''404''))
           remote_downloaded) = Raises (Exn AssertionError [])"
proof -
  have a: "download_cache remote_downloaded (dl_source (downloads remote_downloaded 1)) = None"
    by code_simp
  have b: "\<not> lock_held remote_downloaded" by code_simp
  show ?thesis
    using download_cancelled_callback_unknown_source [OF a, of example_hub] b by simp
qed
subsection \<open>The download-complete callback\<close>









subsection \<open>The status of a job\<close>

text \<open>
  C3 fails on the code. After the first part failed, the job is in the terminal state
  \<open>ERROR\<close> while the second part is still in the download cache; when that part starts,
  \<open>_download_started_callback\<close> sets the status to \<open>DOWNLOADING\<close>. \<open>cancel_job\<close> on the
  failed job sets \<open>CANCELLED\<close>.
\<close>

theorem started_callback_leaves_terminal_state:
  "status (jobs remote_failed 0) = ERROR
   \<and> in_terminal_state (jobs remote_failed 0)
   \<and> download_cache remote_failed ''https://hub/a/b/unet.safetensors'' = Some 0
   \<and> fst (download_started_callback 1 (dq_starts 1 ''unet.safetensors'' remote_failed)) = Returns ()
   \<and> status (jobs (snd (download_started_callback 1
                           (dq_starts 1 ''unet.safetensors'' remote_failed))) 0) = DOWNLOADING
   \<and> status (jobs (snd (cancel_job example_hub 0 remote_failed)) 0) = CANCELLED"
  by code_simp
subsection \<open>The worker and the scratch directory\<close>

lemma process_job_cancelled_cleanup:
  assumes "cancelled (jobs st j)" and "install_tmpdir (jobs st j) = Some tmp"
    and "rmtree (disk st) tmp = Inr fs'" and "unfinished_tasks st = Suc n"
  shows "process_job ext j st =
           (Returns (), (signal_job_cancelled j st)
                          \<lparr>disk := fs', install_completed_event := True, unfinished_tasks := n\<rparr>)"
  using assms
  by (simp add: process_job_def signal_job_cancelled_def emit_def task_done_def)

lemma process_job_cancelled_rmtree_raises:
  assumes "cancelled (jobs st j)" and "install_tmpdir (jobs st j) = Some tmp"
    and "rmtree (disk st) tmp = Inl e"
  shows "process_job ext j st = (Raises e, signal_job_cancelled j st)"
  using assms
  by (simp add: process_job_def signal_job_cancelled_def emit_def)

text \<open>
  C2 fails on the code. The job was queued when its downloads were done and again when
  it was cancelled. The worker visits it twice: the first visit removes the scratch
  directory; on the second, \<open>rmtree\<close> in the \<open>finally\<close> clause raises \<open>FileNotFoundError\<close>,
  which ends the loop of the worker before the latch is set and with the queue item not
  marked done.
\<close>

theorem worker_ends_on_second_visit:
  "install_queue remote_cancelled = [0, 0]
   \<and> unfinished_tasks remote_cancelled = 2
   \<and> \<not> stop_event remote_cancelled
   \<and> install_tmpdir (jobs remote_cancelled 0) = Some (Path_of ''/models/tmpinstall_a1b2c3'')
   \<and> map_option fst (install_next_item example_hub remote_cancelled)
        = Some (Raises (Exn FileNotFoundError ''/models/tmpinstall_a1b2c3''))
   \<and> map_option (\<lambda>r. unfinished_tasks (snd r)) (install_next_item example_hub remote_cancelled)
        = Some 1"
proof -
  let ?st = remote_cancelled
  let ?tmp = "Path_of ''/models/tmpinstall_a1b2c3''"
  let ?e = "Exn FileNotFoundError ''/models/tmpinstall_a1b2c3''"
  define s0 where "s0 = ?st\<lparr>install_queue := [0]\<rparr>"
  define s1 where "s1 = (signal_job_cancelled 0 s0)
      \<lparr>disk := example_disk, install_completed_event := True, unfinished_tasks := 1\<rparr>"
  define s2 where "s2 = s1\<lparr>install_queue := []\<rparr>"
  have q: "install_queue ?st = [0, 0]" by code_simp
  have u: "unfinished_tasks ?st = 2" by code_simp
  have s: "\<not> stop_event ?st" by code_simp
  have c: "cancelled (jobs ?st 0)" by code_simp
  have t: "install_tmpdir (jobs ?st 0) = Some ?tmp" by code_simp
  have r: "rmtree (disk ?st) ?tmp = Inr example_disk" by code_simp
  have r': "rmtree example_disk ?tmp = Inl ?e" by code_simp
  have v1: "process_job example_hub 0 s0 = (Returns (), s1)"
    unfolding s1_def
    by (rule process_job_cancelled_cleanup [where tmp = ?tmp])
       (use c t r u in \<open>simp_all add: s0_def\<close>)
  have j1: "jobs s2 0 = jobs ?st 0" and d1: "disk s2 = example_disk"
    by (simp_all add: s2_def s1_def s0_def signal_job_cancelled_def emit_def)
  have v2: "process_job example_hub 0 s2 = (Raises ?e, signal_job_cancelled 0 s2)"
    by (rule process_job_cancelled_rmtree_raises [where tmp = ?tmp])
       (use c t r' j1 d1 in simp_all)
  have f1: "install_queue s1 = [0] \<and> \<not> stop_event s1"
    using s by (simp add: s1_def s0_def signal_job_cancelled_def emit_def)
  have "install_next_item example_hub ?st = install_next_item example_hub s1"
    using q s v1 by (subst install_next_item.simps) (simp add: s0_def)
  also have "\<dots> = Some (Raises ?e, signal_job_cancelled 0 s2)"
    using f1 v2 by (subst install_next_item.simps) (simp add: s2_def)
  finally have "install_next_item example_hub ?st = Some (Raises ?e, signal_job_cancelled 0 s2)" .
  moreover have "unfinished_tasks (signal_job_cancelled 0 s2) = 1"
    by (simp add: s2_def s1_def signal_job_cancelled_def emit_def)
  ultimately show ?thesis using q u s t by simp
qed
subsection \<open>Migration of the legacy configuration\<close>

lemma register_frame:
  "disk (snd (register ext p c i st)) = disk st
   \<and> app_config (snd (register ext p c i st)) = app_config st
   \<and> fst (register ext p c i st) \<noteq> Blocks"
  by (auto simp: register_def Let_def split: sum.splits option.splits)

lemma migrate_entries_frame:
  "disk (snd (migrate_entries ext items st)) = disk st
   \<and> app_config (snd (migrate_entries ext items st)) = app_config st"
proof (induction items arbitrary: st)
  case Nil
  then show ?case by simp
next
  case (Cons item items)
  obtain k stanza where i: "item = (k, stanza)" by (cases item)
  let ?P = "\<lambda>r. disk (snd r) = disk st \<and> app_config (snd r) = app_config st"
  have reg: "?P (case register_path ext p c st of
                   (Blocks, st1) \<Rightarrow> (Blocks, st1)
                 | (r, st1) \<Rightarrow> migrate_entries ext items st1)" for p c
  proof -
    obtain r st1 where rs: "register_path ext p c st = (r, st1)" by (cases "register_path ext p c st")
    then have f: "disk st1 = disk st \<and> app_config st1 = app_config st"
      using register_frame [of ext p "register_path_config (disk st) p c" None st]
      by (simp add: register_path_def)
    show ?thesis using rs f Cons.IH [of st1] by (cases r) simp_all
  qed
  show ?case unfolding i migrate_entries.simps Let_def
    by (auto split: list.splits option.splits sum.splits simp: reg)
qed

text \<open>
  C9. Let \<open>legacy\<close> be the path where \<open>_migrate_yaml\<close> looks for the file. When the file is
  there and its \<open>__metadata__.version\<close> is not \<open>3.0.0\<close>, \<open>ValueError\<close> is raised and the
  state is untouched: nothing is registered, the file is not renamed. When the file is
  there and \<open>_migrate_yaml\<close> returns, the version was \<open>3.0.0\<close>, the disk afterwards is the
  disk before with the file renamed to its name with the suffix \<open>.yaml.bak\<close>, the
  configured path is unset, and a records store that was not empty is unchanged. When
  the file is not there, only the configured path is unset.
\<close>

theorem migrate_yaml_effect:
  fixes ext :: externals and st :: service
  defines "app \<equiv> app_config st"
      and "configured \<equiv> (case legacy_models_yaml_path (app_config st) of
                            Some q \<Rightarrow> q
                          | None \<Rightarrow> joinpath (joinpath (root_path (app_config st)) (Path_of ''configs''))
                                      (Path_of ''models.yaml''))"
  defines "legacy \<equiv> (if \<not> exists (disk st) configured
                      then joinpath (root_path (app_config st)) configured else configured)"
  shows "(stat (disk st) legacy = Inr (File content) \<and> safe_load ext content = Inr loaded
            \<and> map_of loaded ''__metadata__'' = Some md \<and> map_of md ''version'' \<noteq> Some ''3.0.0''
          \<longrightarrow> (\<exists>msg. migrate_yaml ext st = (Raises (Exn ValueError msg), st)))
       \<and> (exists (disk st) legacy \<and> migrate_yaml ext st = (Returns (), st')
          \<longrightarrow> legacy_models_yaml_path (app_config st') = None
            \<and> (\<exists>bak. with_suffix legacy ''.yaml.bak'' = Inr bak
                   \<and> os_rename (disk st) legacy bak = Inr (disk st'))
            \<and> (\<exists>content' loaded' md'. stat (disk st) legacy = Inr (File content')
                   \<and> safe_load ext content' = Inr loaded'
                   \<and> map_of loaded' ''__metadata__'' = Some md'
                   \<and> map_of md' ''version'' = Some ''3.0.0'')
            \<and> (record_store st \<noteq> [] \<longrightarrow> record_store st' = record_store st))
       \<and> (\<not> exists (disk st) legacy
          \<longrightarrow> migrate_yaml ext st =
                (Returns (), st\<lparr>app_config := app\<lparr>legacy_models_yaml_path := None\<rparr>\<rparr>))"
proof (intro conjI impI)
  assume a: "stat (disk st) legacy = Inr (File content) \<and> safe_load ext content = Inr loaded
            \<and> map_of loaded ''__metadata__'' = Some md \<and> map_of md ''version'' \<noteq> Some ''3.0.0''"
  then have "exists (disk st) legacy" by (simp add: exists_def)
  then show "\<exists>msg. migrate_yaml ext st = (Raises (Exn ValueError msg), st)"
    using a unfolding migrate_yaml_def Let_def legacy_def configured_def by simp
next
  assume "\<not> exists (disk st) legacy"
  then show "migrate_yaml ext st =
                (Returns (), st\<lparr>app_config := app\<lparr>legacy_models_yaml_path := None\<rparr>\<rparr>)"
    unfolding migrate_yaml_def Let_def legacy_def configured_def app_def by simp
next
  assume a: "exists (disk st) legacy \<and> migrate_yaml ext st = (Returns (), st')"
  define unset :: "service \<Rightarrow> service" where "unset = (\<lambda>s. s\<lparr>app_config := (app_config s)\<lparr>legacy_models_yaml_path := None\<rparr>\<rparr>)"
  define entries_of where "entries_of = (\<lambda>loaded :: (string \<times> (string \<times> string) list) list.
     if record_store st = [] \<and> AList.delete ''__metadata__'' loaded \<noteq> []
     then migrate_entries ext (AList.delete ''__metadata__'' loaded) st else (Returns (), st))"
  have frame: "disk (snd (entries_of l)) = disk st
      \<and> (record_store st \<noteq> [] \<longrightarrow> snd (entries_of l) = st)" for l
    using migrate_entries_frame [of ext "AList.delete ''__metadata__'' l" st]
    by (simp add: entries_of_def)
  have m: "migrate_yaml ext st =
     (case stat (disk st) legacy of
        Inl e \<Rightarrow> (Raises (os_error e legacy), st)
      | Inr (Dir es) \<Rightarrow> (Raises (os_error IsADirectoryError legacy), st)
      | Inr (File content) \<Rightarrow>
          (case safe_load ext content of
             Inl e \<Rightarrow> (Raises e, st)
           | Inr loaded \<Rightarrow>
               (case map_of loaded ''__metadata__'' of
                  None \<Rightarrow> (Raises (Exn KeyError ''__metadata__''), st)
                | Some yaml_metadata \<Rightarrow>
                    (if map_of yaml_metadata ''version'' \<noteq> Some ''3.0.0''
                     then (Raises (Exn ValueError
                             (''Attempted migration of unsupported models.yaml v''
                                @ (case map_of yaml_metadata ''version'' of
                                     None \<Rightarrow> ''None'' | Some v \<Rightarrow> v)
                                @ ''. Only v3.0.0 is supported. Exiting.'')), st)
                     else
                       (case entries_of loaded of
                          (Returns u, st1) \<Rightarrow>
                            (case with_suffix legacy ''.yaml.bak'' of
                               Inl e \<Rightarrow> (Raises e, st1)
                             | Inr bak \<Rightarrow>
                                 (case os_rename (disk st1) legacy bak of
                                    Inl e \<Rightarrow> (Raises e, st1)
                                  | Inr fs' \<Rightarrow> (Returns (), unset (st1\<lparr>disk := fs'\<rparr>))))
                        | other \<Rightarrow> other)))))"
    using a unfolding migrate_yaml_def Let_def legacy_def configured_def entries_of_def unset_def
    by simp
  from a have ret: "migrate_yaml ext st = (Returns (), st')" by simp
  obtain content' where c: "stat (disk st) legacy = Inr (File content')"
    using ret unfolding m by (auto split: sum.splits node.splits)
  obtain loaded' where l: "safe_load ext content' = Inr loaded'"
    using ret c unfolding m by (auto split: sum.splits)
  obtain md' where d: "map_of loaded' ''__metadata__'' = Some md'"
    using ret c l unfolding m by (auto split: option.splits)
  have v: "map_of md' ''version'' = Some ''3.0.0''"
    using ret c l d unfolding m by (auto split: if_splits)
  obtain st1 where e: "entries_of loaded' = (Returns (), st1)"
    using ret c l d v unfolding m by (auto split: prod.splits result.splits sum.splits)
  obtain bak where b: "with_suffix legacy ''.yaml.bak'' = Inr bak"
    using ret c l d v e unfolding m by (auto split: sum.splits)
  obtain fs' where r: "os_rename (disk st1) legacy bak = Inr fs'"
    using ret c l d v e b unfolding m by (auto split: sum.splits)
  have st': "st' = unset (st1\<lparr>disk := fs'\<rparr>)"
    using ret c l d v e b r unfolding m by simp
  have f: "disk st1 = disk st \<and> (record_store st \<noteq> [] \<longrightarrow> st1 = st)"
    using frame [of loaded'] e by simp
  show "legacy_models_yaml_path (app_config st') = None"
    by (simp add: st' unset_def)
  show "\<exists>bak. with_suffix legacy ''.yaml.bak'' = Inr bak
           \<and> os_rename (disk st) legacy bak = Inr (disk st')"
    using b r f by (auto simp: st' unset_def)
  show "\<exists>content' loaded' md'. stat (disk st) legacy = Inr (File content')
           \<and> safe_load ext content' = Inr loaded'
           \<and> map_of loaded' ''__metadata__'' = Some md'
           \<and> map_of md' ''version'' = Some ''3.0.0''"
    using c l d v by blast
  show "record_store st' = record_store st" if "record_store st \<noteq> []"
    using f that by (auto simp: st' unset_def)
qed

text \<open>
  A version 2.0.0 file is refused and nothing changes. A version 3.0.0 file is migrated
  into the empty store and renamed to \<open>models.yaml.bak\<close>; the migration run again finds
  no file and changes nothing but the configured path.
\<close>

theorem migrate_yaml_effect_witness:
  "(\<exists>msg. migrate_yaml legacy_externals (example_service (legacy_disk ''v2''))
            = (Raises (Exn ValueError msg), example_service (legacy_disk ''v2'')))
   \<and> fst (migrate_yaml legacy_externals (example_service (legacy_disk ''v3''))) = Returns ()
   \<and> legacy_models_yaml_path (app_config
         (snd (migrate_yaml legacy_externals (example_service (legacy_disk ''v3''))))) = None
   \<and> os_rename (legacy_disk ''v3'') (Path_of ''/root/configs/models.yaml'')
         (Path_of ''/root/configs/models.yaml.bak'')
       = Inr (disk (snd (migrate_yaml legacy_externals (example_service (legacy_disk ''v3'')))))
   \<and> stat (disk (snd (migrate_yaml legacy_externals (example_service (legacy_disk ''v3'')))))
         (Path_of ''/root/configs/models.yaml.bak'') = Inr (File ''v3'')
   \<and> \<not> exists (disk (snd (migrate_yaml legacy_externals (example_service (legacy_disk ''v3'')))))
         (Path_of ''/root/configs/models.yaml'')
   \<and> map m_key (record_store
         (snd (migrate_yaml legacy_externals (example_service (legacy_disk ''v3'')))))
       = [''key-foo'', ''key-bar'']"
proof -
  let ?legacy = "Path_of ''/root/configs/models.yaml''"
  let ?bak = "Path_of ''/root/configs/models.yaml.bak''"
  let ?two = "example_service (legacy_disk ''v2'')"
  let ?three = "example_service (legacy_disk ''v3'')"
  let ?after = "snd (migrate_yaml legacy_externals ?three)"
  have p2: "(if \<not> exists (disk ?two)
                  (case legacy_models_yaml_path (app_config ?two) of
                     Some q \<Rightarrow> q
                   | None \<Rightarrow> joinpath (joinpath (root_path (app_config ?two)) (Path_of ''configs''))
                               (Path_of ''models.yaml''))
             then joinpath (root_path (app_config ?two))
                  (case legacy_models_yaml_path (app_config ?two) of
                     Some q \<Rightarrow> q
                   | None \<Rightarrow> joinpath (joinpath (root_path (app_config ?two)) (Path_of ''configs''))
                               (Path_of ''models.yaml''))
             else (case legacy_models_yaml_path (app_config ?two) of
                     Some q \<Rightarrow> q
                   | None \<Rightarrow> joinpath (joinpath (root_path (app_config ?two)) (Path_of ''configs''))
                               (Path_of ''models.yaml''))) = ?legacy"
    by code_simp
  have p3: "(if \<not> exists (disk ?three)
                  (case legacy_models_yaml_path (app_config ?three) of
                     Some q \<Rightarrow> q
                   | None \<Rightarrow> joinpath (joinpath (root_path (app_config ?three)) (Path_of ''configs''))
                               (Path_of ''models.yaml''))
             then joinpath (root_path (app_config ?three))
                  (case legacy_models_yaml_path (app_config ?three) of
                     Some q \<Rightarrow> q
                   | None \<Rightarrow> joinpath (joinpath (root_path (app_config ?three)) (Path_of ''configs''))
                               (Path_of ''models.yaml''))
             else (case legacy_models_yaml_path (app_config ?three) of
                     Some q \<Rightarrow> q
                   | None \<Rightarrow> joinpath (joinpath (root_path (app_config ?three)) (Path_of ''configs''))
                               (Path_of ''models.yaml''))) = ?legacy"
    by code_simp
  have a2: "stat (disk ?two) ?legacy = Inr (File ''v2'')
      \<and> safe_load legacy_externals ''v2''
          = Inr [(''__metadata__'', [(''version'', ''2.0.0'')]),
                 (''sd-1/main/foo'', [(''path'', ''/in/foo'')])]" by code_simp
  have b2: "map_of [(''__metadata__'', [(''version'', ''2.0.0'')]),
                    (''sd-1/main/foo'', [(''path'', ''/in/foo'')])] ''__metadata__''
              = Some [(''version'', ''2.0.0'')]
      \<and> map_of [(''version'', ''2.0.0'')] ''version'' \<noteq> Some ''3.0.0''" by code_simp
  have one: "\<exists>msg. migrate_yaml legacy_externals ?two = (Raises (Exn ValueError msg), ?two)"
    using migrate_yaml_effect [where ext = legacy_externals and st = ?two and content = "''v2''"
        and loaded = "[(''__metadata__'', [(''version'', ''2.0.0'')]),
                       (''sd-1/main/foo'', [(''path'', ''/in/foo'')])]"
        and md = "[(''version'', ''2.0.0'')]"]
    unfolding p2 using a2 b2 by blast
  have r3: "fst (migrate_yaml legacy_externals ?three) = Returns ()" by code_simp
  then have ret: "migrate_yaml legacy_externals ?three = (Returns (), ?after)"
    by (metis prod.collapse)
  have e3: "exists (disk ?three) ?legacy \<and> disk ?three = legacy_disk ''v3''" by code_simp
  have w: "with_suffix ?legacy ''.yaml.bak'' = Inr ?bak" by code_simp
  have two: "legacy_models_yaml_path (app_config ?after) = None
      \<and> os_rename (legacy_disk ''v3'') ?legacy ?bak = Inr (disk ?after)"
    using migrate_yaml_effect [where ext = legacy_externals and st = ?three and st' = ?after]
    unfolding p3 using e3 ret w by auto
  have three: "stat (disk ?after) ?bak = Inr (File ''v3'') \<and> \<not> exists (disk ?after) ?legacy
      \<and> map m_key (record_store ?after) = [''key-foo'', ''key-bar'']" by code_simp
  show ?thesis using one r3 two three by blast
qed
end
